theory Spec2Isabelle
  imports Main "HOL-Library.Sublist"
begin

section \<open>Python values shared by both programs\<close>

text \<open>
  Strings are byte lists in UTF-8: a code point outside ASCII is the sequence of its
  bytes, so two Python strings are equal exactly when their models are.

  What a call raises is an instance of Python's \<^verbatim>\<open>Exception\<close>, the class every
  handler of the two programs names. The classes kept apart are the ones the programs
  name or meet: \<^verbatim>\<open>ExecuteSQLQueryNotUsed\<close> (caught by name in \<^verbatim>\<open>safe_chat\<close>),
  \<^verbatim>\<open>ValueError\<close> (raised by the console script), \<^verbatim>\<open>EOFError\<close> (raised by
  \<^verbatim>\<open>input\<close> at the end of standard input); every other class is
  \<open>OtherException\<close>. The second component is the message, what \<^verbatim>\<open>str(e)\<close> gives.
  Interrupts and interpreter exit (\<^verbatim>\<open>KeyboardInterrupt\<close>, \<^verbatim>\<open>SystemExit\<close>), which
  Python keeps outside \<^verbatim>\<open>Exception\<close> and which arrive asynchronously, are not
  part of this sequential model.
\<close>

datatype exc_class = ExecuteSQLQueryNotUsed | ValueError | EOFError | OtherException

datatype py_exception = Exc exc_class string

fun exc_str :: "py_exception \<Rightarrow> string" where
  "exc_str (Exc cls msg) = msg"

text \<open>
  \<^verbatim>\<open>os.getenv\<close> gives \<^verbatim>\<open>None\<close> for an unset variable. Python's \<^verbatim>\<open>all\<close> over
  these values asks each for its truth value: \<^verbatim>\<open>None\<close> and the empty string are false.
\<close>

type_synonym environ = "string \<Rightarrow> string option"

fun truthy :: "string option \<Rightarrow> bool" where
  "truthy None = False"
| "truthy (Some s) = (s \<noteq> [])"

fun py_all :: "string option list \<Rightarrow> bool" where
  "py_all [] = True"
| "py_all (v # vs) = (if truthy v then py_all vs else False)"

text \<open>\<^verbatim>\<open>sep.join(parts)\<close>.\<close>

fun join :: "string \<Rightarrow> string list \<Rightarrow> string" where
  "join sep [] = []"
| "join sep [p] = p"
| "join sep (p # q # ps) = p @ sep @ join sep (q # ps)"


section \<open>The console script (rag.py): rows to documents\<close>

text \<open>
  A dataframe as the script sees it: rows in file order, each row the pairs that
  \<^verbatim>\<open>row.items()\<close> yields, column label and value, in column order. A value is the text
  \<^verbatim>\<open>str\<close> gives for it inside the f-string, or \<open>None\<close> for a null (NaN), the values
  \<^verbatim>\<open>pd.notna\<close> rejects.
\<close>

type_synonym cell = "string option"
type_synonym row = "(string \<times> cell) list"
type_synonym dataframe = "row list"

record document =
  page_content :: string
  metadata_source :: string

text \<open>
  \<^verbatim>\<open>pd.read_csv(path, nrows=n)\<close> on a file whose data rows are \<open>file_rows\<close>: pandas reads
  the first \<open>n\<close> of them.
\<close>

definition read_csv :: "dataframe \<Rightarrow> nat \<Rightarrow> dataframe" where
  "read_csv file_rows nrows = take nrows file_rows"

definition holding_df :: "dataframe \<Rightarrow> dataframe" where
  "holding_df holdings_csv = read_csv holdings_csv 1023"

definition trade_df :: "dataframe \<Rightarrow> dataframe" where
  "trade_df trades_csv = read_csv trades_csv 700"

definition notna :: "cell \<Rightarrow> bool" where
  "notna val = (val \<noteq> None)"

text \<open>The loop of \<^verbatim>\<open>create_readable_text_from_row\<close>, \<open>parts\<close> being the list it appends to.\<close>

fun row_parts :: "row \<Rightarrow> string list \<Rightarrow> string list" where
  "row_parts [] parts = parts"
| "row_parts ((col, val) # rest) parts =
     (if notna val then row_parts rest (parts @ [col @ '': '' @ the val])
      else row_parts rest parts)"

definition create_readable_text_from_row :: "row \<Rightarrow> string" where
  "create_readable_text_from_row row = join ''. '' (row_parts row []) @ ''.''"

text \<open>The loop of \<^verbatim>\<open>df_to_documents\<close> over \<^verbatim>\<open>df.iterrows()\<close>.\<close>

fun docs_loop :: "dataframe \<Rightarrow> string \<Rightarrow> document list \<Rightarrow> document list" where
  "docs_loop [] source docs = docs"
| "docs_loop (row # rest) source docs =
     docs_loop rest source
       (docs @ [\<lparr>page_content = create_readable_text_from_row row, metadata_source = source\<rparr>])"

definition df_to_documents :: "dataframe \<Rightarrow> string \<Rightarrow> document list" where
  "df_to_documents df source = docs_loop df source []"

definition documents :: "dataframe \<Rightarrow> dataframe \<Rightarrow> document list" where
  "documents holdings_csv trades_csv =
     df_to_documents (holding_df holdings_csv) ''holding''
     @ df_to_documents (trade_df trades_csv) ''trade''"


section \<open>The console script: environment, index, prompt and chain\<close>

text \<open>
  The libraries the script wires together are parameters of the model: what the
  retriever returns for a query (the vector index and the embedding are the library's,
  and floating point), how Python prints a list of documents inside the template, and
  what the hosted chat model replies. Each call may raise.
\<close>

record faiss_index =
  indexed_docs :: "document list"
  embeddings_model :: string

record retriever =
  r_store :: faiss_index
  search_type :: string
  search_k :: nat

record azure_chat =
  azure_endpoint :: string
  azure_api_key :: string
  azure_api_version :: string
  deployment_name :: string
  temperature :: nat

datatype ai_message = AIMessage string

datatype piece = Lit string | Var string

record rag_chain =
  chain_retriever :: retriever
  chain_prompt :: "piece list"
  chain_llm :: azure_chat

record rag_library =
  retrieve :: "retriever \<Rightarrow> string \<Rightarrow> py_exception + document list"
  docs_str :: "document list \<Rightarrow> string"
  chat_model :: "azure_chat \<Rightarrow> string \<Rightarrow> py_exception + ai_message"

datatype console_event = Print string | Prompt string

record rag_state =
  st_documents :: "document list"
  st_vector_store :: faiss_index
  st_retriever :: retriever
  st_llm :: azure_chat
  st_prompt :: "piece list"
  st_rag_chain :: rag_chain
  console :: "console_event list"

definition env_values :: "environ \<Rightarrow> string option list" where
  "env_values env =
     [env ''AZURE_OPENAI_API_KEY'', env ''AZURE_OPENAI_ENDPOINT'',
      env ''AZURE_OPENAI_DEPLOYMENT'', env ''AZURE_OPENAI_API_VERSION'']"

text \<open>The template of the script, split at its two placeholders.\<close>

definition prompt_template :: "piece list" where
  \<open>prompt_template =
     [Lit (join ''\<newline>''
        ['''',
         ''You are a helpful data analyst.'',
         '''',
         ''Rules:'',
         ''- Use ONLY the information in the context'',
         ''- If the answer is not present, say: "I don't have that information in the data"'',
         ''- Mention whether the data came from holding or trade if relevant'',
         ''- Do NOT guess or hallucinate'',
         '''',
         ''Context:'',
         '''']),
      Var ''context'',
      Lit (join ''\<newline>'' ['''', '''', ''Question:'', '''']),
      Var ''question'',
      Lit (join ''\<newline>'' ['''', '''', ''Answer:'', ''''])]\<close>

text \<open>Filling a template from a dictionary; a placeholder without a value is a KeyError.\<close>

fun format_prompt :: "piece list \<Rightarrow> (string \<rightharpoonup> string) \<Rightarrow> py_exception + string" where
  "format_prompt [] vars = Inr []"
| "format_prompt (Lit s # ps) vars =
     (case format_prompt ps vars of Inl e \<Rightarrow> Inl e | Inr r \<Rightarrow> Inr (s @ r))"
| "format_prompt (Var v # ps) vars =
     (case vars v of
        None \<Rightarrow> Inl (Exc OtherException v)
      | Some x \<Rightarrow> (case format_prompt ps vars of Inl e \<Rightarrow> Inl e | Inr r \<Rightarrow> Inr (x @ r)))"

fun StrOutputParser :: "ai_message \<Rightarrow> string" where
  "StrOutputParser (AIMessage text_content) = text_content"

text \<open>
  \<^verbatim>\<open>rag_chain.invoke(question)\<close>: the dictionary step gives the retriever and the
  pass-through the same input, then the template, the chat model and the parser run in
  turn; an exception of any step leaves the chain.
\<close>

definition rag_chain_invoke :: "rag_library \<Rightarrow> rag_chain \<Rightarrow> string \<Rightarrow> py_exception + string" where
  "rag_chain_invoke lib chain question =
     (case retrieve lib (chain_retriever chain) question of
        Inl e \<Rightarrow> Inl e
      | Inr docs \<Rightarrow>
          (case format_prompt (chain_prompt chain)
                  [''context'' \<mapsto> docs_str lib docs, ''question'' \<mapsto> question] of
             Inl e \<Rightarrow> Inl e
           | Inr filled \<Rightarrow>
               (case chat_model lib (chain_llm chain) filled of
                  Inl e \<Rightarrow> Inl e
                | Inr reply \<Rightarrow> Inr (StrOutputParser reply))))"

text \<open>Decimal digits of a number, as an f-string prints \<^verbatim>\<open>len(...)\<close>.\<close>

fun str_nat :: "nat \<Rightarrow> string" where
  "str_nat n =
     (if n < 10 then [char_of (48 + n)]
      else str_nat (n div 10) @ [char_of (48 + n mod 10)])"

declare str_nat.simps [simp del]

text \<open>
  The script up to its loop, on the data rows of the two files. It raises
  \<^verbatim>\<open>ValueError\<close> before anything else when a variable is missing; otherwise the state
  holds every object the loop uses, and the lines printed so far. The set-up is the run
  in which both files are read and the library objects are built: a failure of a
  constructor ends the script before the loop, and is not modelled.
\<close>

definition rag_setup :: "environ \<Rightarrow> dataframe \<Rightarrow> dataframe \<Rightarrow> py_exception + rag_state" where
  \<open>rag_setup env holdings_csv trades_csv =
     (if \<not> py_all (env_values env)
      then Inl (Exc ValueError
             ([CHR 0xE2, CHR 0x9D, CHR 0x8C] @ '' Missing Azure OpenAI environment variables''))
      else
        let docs = documents holdings_csv trades_csv;
            vector_store = \<lparr>indexed_docs = docs,
                            embeddings_model = ''sentence-transformers/all-MiniLM-L6-v2''\<rparr>;
            retr = \<lparr>r_store = vector_store, search_type = ''similarity'', search_k = 100\<rparr>;
            llm = \<lparr>azure_endpoint = the (env ''AZURE_OPENAI_ENDPOINT''),
                   azure_api_key = the (env ''AZURE_OPENAI_API_KEY''),
                   azure_api_version = the (env ''AZURE_OPENAI_API_VERSION''),
                   deployment_name = the (env ''AZURE_OPENAI_DEPLOYMENT''),
                   temperature = 0\<rparr>
        in Inr \<lparr>st_documents = docs,
                st_vector_store = vector_store,
                st_retriever = retr,
                st_llm = llm,
                st_prompt = prompt_template,
                st_rag_chain = \<lparr>chain_retriever = retr, chain_prompt = prompt_template,
                                chain_llm = llm\<rparr>,
                console =
                  [Print ([CHR 0xE2, CHR 0x9C, CHR 0x85] @ '' Azure environment loaded''),
                   Print ([CHR 0xF0, CHR 0x9F, CHR 0x93, CHR 0x84] @ '' Holding rows loaded: ''
                          @ str_nat (length (holding_df holdings_csv))),
                   Print ([CHR 0xF0, CHR 0x9F, CHR 0x93, CHR 0x84] @ '' Trade rows loaded: ''
                          @ str_nat (length (trade_df trades_csv))),
                   Print ([CHR 0xF0, CHR 0x9F, CHR 0x93, CHR 0x9A] @ '' Total documents created: ''
                          @ str_nat (length docs)),
                   Print ([CHR 0xE2, CHR 0x9C, CHR 0x85] @ '' Local embeddings initialized''),
                   Print ([CHR 0xE2, CHR 0x9C, CHR 0x85] @ '' FAISS vector store ready''),
                   Print ([CHR 0xE2, CHR 0x9C, CHR 0x85] @ '' Azure chat model initialized''),
                   Print (''\<newline>'' @ [CHR 0xF0, CHR 0x9F, CHR 0x9A, CHR 0x80]
                          @ '' RAG system READY''),
                   Print ([CHR 0xE2, CHR 0x9A, CHR 0xA0, CHR 0xEF, CHR 0xB8, CHR 0x8F]
                          @ '' Using first 100 rows from each CSV''),
                   Print ''Type 'exit' to quit\<newline>'']\<rparr>)\<close>


section \<open>The console script: the question loop\<close>

text \<open>
  \<^verbatim>\<open>str.lower\<close> on the ASCII letters; other bytes are kept. No code point outside
  ASCII lowercases to a letter of "exit", "quit" or "q", so the test of the loop is the
  one Python makes.
\<close>

definition lower_char :: "char \<Rightarrow> char" where
  "lower_char c =
     (if 65 \<le> (of_char c :: nat) \<and> (of_char c :: nat) \<le> 90
      then char_of (of_char c + 32 :: nat) else c)"

definition lower :: "string \<Rightarrow> string" where
  "lower s = map lower_char s"

definition is_exit :: "string \<Rightarrow> bool" where
  "is_exit user_question = (lower user_question \<in> set [''exit'', ''quit'', ''q''])"

text \<open>
  How the loop stops: by its \<^verbatim>\<open>break\<close>, or by an exception nothing catches. Standard
  input is the lines that arrive, in order, and what comes after them: its end
  (\<open>eof\<close>, where \<^verbatim>\<open>input\<close> raises \<^verbatim>\<open>EOFError\<close>) or nothing yet, where the script
  waits inside \<^verbatim>\<open>input\<close>.
\<close>

datatype loop_end = Exited | Uncaught py_exception | Waiting

definition emit :: "console_event \<Rightarrow> rag_state \<Rightarrow> rag_state" where
  "emit ev st = st\<lparr>console := console st @ [ev]\<rparr>"

fun qa_loop :: "rag_library \<Rightarrow> rag_state \<Rightarrow> string list \<Rightarrow> bool \<Rightarrow> rag_state \<times> loop_end" where
  \<open>qa_loop lib st [] eof =
     (emit (Prompt ''You: '') st,
      if eof then Uncaught (Exc EOFError ''EOF when reading a line'') else Waiting)\<close>
| \<open>qa_loop lib st (user_question # rest) eof =
     (if is_exit user_question
      then (emit (Print ([CHR 0xF0, CHR 0x9F, CHR 0x91, CHR 0x8B] @ '' Goodbye!''))
              (emit (Prompt ''You: '') st), Exited)
      else
        (case rag_chain_invoke lib (st_rag_chain st) user_question of
           Inr answer \<Rightarrow>
             qa_loop lib
               (emit (Print (''\<newline>AI: '' @ answer @ ''\<newline>''))
                  (emit (Prompt ''You: '') st)) rest eof
         | Inl e \<Rightarrow>
             qa_loop lib
               (emit (Print ([CHR 0xE2, CHR 0x9A, CHR 0xA0, CHR 0xEF, CHR 0xB8, CHR 0x8F]
                             @ '' Error: '' @ exc_str e @ ''\<newline>''))
                  (emit (Prompt ''You: '') st)) rest eof))\<close>

text \<open>The whole script.\<close>

definition rag_script ::
  "environ \<Rightarrow> dataframe \<Rightarrow> dataframe \<Rightarrow> rag_library \<Rightarrow> string list \<Rightarrow> bool
     \<Rightarrow> py_exception + rag_state \<times> loop_end" where
  "rag_script env holdings_csv trades_csv lib stdin_lines eof =
     (case rag_setup env holdings_csv trades_csv of
        Inl e \<Rightarrow> Inl e
      | Inr st \<Rightarrow> Inr (qa_loop lib st stdin_lines eof))"


section \<open>The chat UI (app.py): values, messages and the delegated library\<close>

text \<open>
  What the delegated library hands back is a Python object: a string, a dictionary, or
  any other object, of which the script only asks whether it has an attribute
  \<^verbatim>\<open>head\<close> (as a dataframe has). The number tells objects apart.
\<close>

datatype pyval = PStr string | PDict "(string \<times> pyval) list" | PObj nat bool

fun hasattr_head :: "pyval \<Rightarrow> bool" where
  "hasattr_head (PObj ident has_head) = has_head"
| "hasattr_head (PStr s) = False"
| "hasattr_head (PDict items) = False"

record message =
  role :: string
  content :: pyval

text \<open>
  The two dataframes of \<^verbatim>\<open>load_data\<close>, and the two ways the script hands a question
  to the library: \<^verbatim>\<open>fn.chat(question)\<close> on one dataframe, and
  \<^verbatim>\<open>pai.chat(prompt, holdings_df, trades_df)\<close>. The library is a parameter: for each
  call, the value it returns or the exception it raises.
\<close>

datatype frame = holdings_df | trades_df

datatype lib_call = DfChat frame string | PaiChat string "frame list"

type_synonym pandasai = "lib_call \<Rightarrow> py_exception + pyval"

record litellm =
  model :: string
  api_key :: string
  api_base :: string
  api_version :: string

record pai_settings =
  cfg_llm :: litellm
  cfg_verbose :: bool
  cfg_System_prompt :: string

text \<open>The text given to \<^verbatim>\<open>pai.config.set\<close> under "System_prompt", line by line.\<close>

definition System_prompt_lines :: "string list" where
  \<open>System_prompt_lines =
     [
      '''',
      ''You are a STRICT, SQL-driven financial analytics customer assistant.'',
      ''"IMPORTANT"'',
      ''You should not give answer to this questions5:'',
      ''   - CEOs'',
      ''   - company history'',
      ''   - company descriptions'',
      ''   - people'',
      ''   - market conditions'',
      ''You can reply to greeting and farewell messages.do not run query for them.'',
      ''You are operating in DATA-ONLY MODE.'',
      ''You are allowed to answer questions ONLY using the provided dataframe(s).'',
      ''These dataframe(s) come from internal financial CSV files and represent real'',
      ''portfolio holdings and executed trades.'',
      '''',
      ''===================================================='',
      ''DATASETS YOU HAVE ACCESS TO (VERY IMPORTANT)'',
      ''===================================================='',
      '''',
      ''You have EXACTLY TWO datasets:'',
      '''',
      ''----------------------------------------------------'',
      ''1) HOLDINGS DATASET (table_holdings)'',
      ''----------------------------------------------------'',
      ''This dataset represents portfolio HOLDINGS (open positions).'',
      ''Each row corresponds to a position held by a portfolio in a security.'',
      '''',
      ''This dataset is used for:'',
      ''- Portfolio exposure analysis'',
      ''- Holdings quantities'',
      ''- Performance and P&L analysis'',
      ''- Long / short / repo / CDS positions'',
      '''',
      ''Key columns and their meaning:'',
      '''',
      ''- PortfolioName'',
      ''  '' @ [CHR 0xE2, CHR 0x86, CHR 0x92] @ '' Name of the fund / portfolio (e.g. Platpot, Ytum, HoldCo 11)'',
      '''',
      ''- SecName'',
      ''  '' @ [CHR 0xE2, CHR 0x86, CHR 0x92] @ '' Security identifier used in holdings'',
      ''  '' @ [CHR 0xE2, CHR 0x86, CHR 0x92] @ '' Can represent equities, bonds, repos, CDS, FX forwards, etc.'',
      ''  '' @ [CHR 0xE2, CHR 0x86, CHR 0x92] @ '' This is the PRIMARY identifier for holdings'',
      '''',
      ''- Qty'',
      ''  '' @ [CHR 0xE2, CHR 0x86, CHR 0x92] @ '' Current holding quantity'',
      ''  '' @ [CHR 0xE2, CHR 0x86, CHR 0x92] @ '' Can be POSITIVE (long) or NEGATIVE (short / repo / hedge)'',
      '''',
      ''- StartQty'',
      ''  '' @ [CHR 0xE2, CHR 0x86, CHR 0x92] @ '' Quantity at the start of the period'',
      '''',
      ''- Price'',
      ''  '' @ [CHR 0xE2, CHR 0x86, CHR 0x92] @ '' Current price of the security'',
      '''',
      ''- MV_Local'',
      ''  '' @ [CHR 0xE2, CHR 0x86, CHR 0x92] @ '' Market value in local currency'',
      '''',
      ''- MV_Base'',
      ''  '' @ [CHR 0xE2, CHR 0x86, CHR 0x92] @ '' Market value in base currency'',
      '''',
      ''- PL_DTD'',
      ''  '' @ [CHR 0xE2, CHR 0x86, CHR 0x92] @ '' Profit & Loss day-to-date'',
      '''',
      ''- PL_MTD'',
      ''  '' @ [CHR 0xE2, CHR 0x86, CHR 0x92] @ '' Profit & Loss month-to-date'',
      '''',
      ''- PL_QTD'',
      ''  '' @ [CHR 0xE2, CHR 0x86, CHR 0x92] @ '' Profit & Loss quarter-to-date'',
      '''',
      ''- PL_YTD'',
      ''  '' @ [CHR 0xE2, CHR 0x86, CHR 0x92] @ '' Profit & Loss year-to-date'',
      '''',
      ''IMPORTANT NOTES FOR HOLDINGS:'',
      ''- A portfolio can appear multiple times (multiple securities).'',
      ''- Negative quantities are VALID and represent financing or hedging positions.'',
      ''- Performance questions must be answered using PL_* columns.'',
      '''',
      ''----------------------------------------------------'',
      ''2) TRADES DATASET (table_trades)'',
      ''----------------------------------------------------'',
      ''This dataset represents EXECUTED TRADES.'',
      ''Each row corresponds to one executed trade.'',
      '''',
      ''This dataset is used for:'',
      ''- Trade counts'',
      ''- Trade frequency'',
      ''- Traded quantities'',
      ''- Turnover analysis'',
      '''',
      ''Key columns and their meaning:'',
      '''',
      ''- PortfolioName'',
      ''  '' @ [CHR 0xE2, CHR 0x86, CHR 0x92] @ '' Portfolio executing the trade'',
      '''',
      ''- Name'',
      ''  '' @ [CHR 0xE2, CHR 0x86, CHR 0x92] @ '' Instrument name used for trading'',
      ''  '' @ [CHR 0xE2, CHR 0x86, CHR 0x92] @ '' This is the PRIMARY identifier for trades'',
      '''',
      ''- Ticker'',
      ''  '' @ [CHR 0xE2, CHR 0x86, CHR 0x92] @ '' Market ticker symbol'',
      ''  '' @ [CHR 0xE2, CHR 0x86, CHR 0x92] @ '' May be NULL for many instruments (bonds, OTC trades)'',
      '''',
      ''- Quantity'',
      ''  '' @ [CHR 0xE2, CHR 0x86, CHR 0x92] @ '' Quantity traded in the transaction'',
      '''',
      ''- TradeTypeName'',
      ''  '' @ [CHR 0xE2, CHR 0x86, CHR 0x92] @ '' Buy or Sell'',
      '''',
      ''- TradeDate'',
      ''  '' @ [CHR 0xE2, CHR 0x86, CHR 0x92] @ '' Execution date'',
      '''',
      ''- Price'',
      ''  '' @ [CHR 0xE2, CHR 0x86, CHR 0x92] @ '' Trade execution price'',
      '''',
      ''- TotalCash'',
      ''  '' @ [CHR 0xE2, CHR 0x86, CHR 0x92] @ '' Total cash impact of the trade'',
      '''',
      ''IMPORTANT NOTES FOR TRADES:'',
      ''- Ticker may be NULL '' @ [CHR 0xE2, CHR 0x80, CHR 0x94] @ '' this is expected and valid.'',
      ''- Use Name instead of Ticker when aggregating symbols.'',
      ''- Multiple trades can exist for the same instrument and portfolio.'',
      '''',
      ''----------------------------------------------------'',
      ''3) MULTI-TABLE ANALYSIS (HOLDINGS + TRADES)'',
      ''----------------------------------------------------'',
      ''When a question involves BOTH holdings and trades:'',
      '''',
      ''- You MUST use SQL-style joins'',
      ''- Preferred join key:'',
      ''    table_holdings.SecName = table_trades.Name'',
      '''',
      ''- Always aggregate BEFORE joining when appropriate'',
      ''- Use LEFT JOIN / FULL JOIN where necessary to avoid data loss'',
      '''',
      ''===================================================='',
      ''**MANDATORY RULES (NO EXCEPTIONS)**'',
      ''===================================================='',
      '''',
      ''1. You MUST answer ONLY using the data in the provided dataframe(s).'',
      ''2. You MUST use SQL-style reasoning:'',
      ''   - aggregation'',
      ''   - filtering'',
      ''   - grouping'',
      ''   - joins'',
      ''3. You MUST NOT use:'',
      ''   - external knowledge'',
      ''   - general financial knowledge'',
      ''   - internet facts'',
      ''   - assumptions'',
      ''4. You MUST NOT fabricate:'',
      ''   - columns'',
      ''   - values'',
      ''   - symbols'',
      ''   - explanations'',
      ''5. You MUST NEVER answer questions about:'',
      ''   - CEOs'',
      ''   - company history'',
      ''   - company descriptions'',
      ''   - people'',
      ''   - market conditions'',
      ''6. If the answer CANNOT be derived from the dataframe(s),'',
      ''   respond EXACTLY with:'',
      ''   "I don't know '' @ [CHR 0xE2, CHR 0x80, CHR 0x94] @ '' this information is not in the CSV."'',
      '''',
      ''===================================================='',
      ''OUTPUT RULES'',
      ''===================================================='',
      '''',
      ''- If the question asks for comparison or aggregation '' @ [CHR 0xE2, CHR 0x86, CHR 0x92] @ '' return a TABLE.'',
      ''- If the question asks for a single metric '' @ [CHR 0xE2, CHR 0x86, CHR 0x92] @ '' return only that value.'',
      ''- Do NOT add commentary, interpretation, or explanation.'',
      ''- Do NOT guess missing information.'',
      '''',
      ''===================================================='',
      ''FINAL REMINDER'',
      ''===================================================='',
      '''',
      ''If it is not explicitly present as a column or value in the CSV data,'',
      ''you DO NOT know it.'',
      ''''
     ]\<close>

definition System_prompt :: string where
  "System_prompt = join ''\<newline>'' System_prompt_lines"

section \<open>The chat UI: one run of the script\<close>

text \<open>
  Streamlit runs the script from top to bottom on every interaction. What lasts between
  runs is the message list in the session state (\<open>None\<close>: the key is not there yet) and
  the cache of \<^verbatim>\<open>init_llm\<close>. A run leaves the widgets it drew, in order, the clients
  it constructed, the calls it made to the library, and how it ended.
\<close>

record session =
  messages :: "message list option"
  llm_cache :: "litellm option"

datatype scope = Holdings | Trades | Holdings_Trades

fun scope_label :: "scope \<Rightarrow> string" where
  "scope_label Holdings = ''Holdings''"
| "scope_label Trades = ''Trades''"
| "scope_label Holdings_Trades = ''Holdings + Trades''"

datatype widget = Write pyval | Dataframe pyval

datatype ui_event =
    PageConfig string string
  | Title string
  | Caption string
  | ErrorBox string
  | SidebarHeader string
  | SidebarSelectbox string "string list"
  | SidebarMarkdown string
  | SidebarWrite string
  | SidebarButton string
  | ChatMessage string widget
  | ChatInput string
  | Spinner string
  | Expander string frame nat

datatype run_end = Completed | Stopped | Rerun | Crashed py_exception

record run =
  session_after :: session
  ui :: "ui_event list"
  constructed :: "litellm list"
  pai_config :: "pai_settings option"
  calls :: "lib_call list"
  ended :: run_end

definition page_header :: "ui_event list" where
  "page_header =
     [PageConfig ''CSV Financial AI Assistant'' ''wide'',
      Title ([CHR 0xF0, CHR 0x9F, CHR 0x93, CHR 0x8A] @ '' CSV Financial AI Assistant''),
      Caption ''Chatbot that answers strictly from CSV data (no hallucinations)'']"

text \<open>\<^verbatim>\<open>init_llm\<close> under \<^verbatim>\<open>st.cache_resource\<close>: the client, and the clients built by this call.\<close>

definition init_llm :: "environ \<Rightarrow> litellm option \<Rightarrow> litellm \<times> litellm list" where
  "init_llm env cache =
     (case cache of
        Some client \<Rightarrow> (client, [])
      | None \<Rightarrow>
          (let client = \<lparr>model = ''azure/'' @ the (env ''AZURE_OPENAI_DEPLOYMENT''),
                         api_key = the (env ''AZURE_OPENAI_API_KEY''),
                         api_base = the (env ''AZURE_OPENAI_ENDPOINT''),
                         api_version = the (env ''AZURE_OPENAI_API_VERSION'')\<rparr>
           in (client, [client])))"

text \<open>\<^verbatim>\<open>safe_chat\<close>, with the call it makes.\<close>

definition safe_chat :: "pandasai \<Rightarrow> frame \<Rightarrow> string \<Rightarrow> lib_call list \<times> pyval" where
  \<open>safe_chat lib fn question =
     ([DfChat fn question],
      case lib (DfChat fn question) of
        Inr answer \<Rightarrow> answer
      | Inl (Exc cls msg) \<Rightarrow>
          (if cls = ExecuteSQLQueryNotUsed
           then PStr (''I don't know '' @ [CHR 0xE2, CHR 0x80, CHR 0x94]
                      @ '' this information is not in the CSV.'')
           else PStr (''I don't know '' @ [CHR 0xE2, CHR 0x80, CHR 0x94]
                      @ '' this information is not in the CSV.'')))\<close>

text \<open>The body of the \<^verbatim>\<open>try\<close> of the handler, then the handler with its \<^verbatim>\<open>except\<close>.\<close>

definition delegate :: "pandasai \<Rightarrow> string \<Rightarrow> string \<Rightarrow> lib_call list \<times> (py_exception + pyval)" where
  "delegate lib data_scope prompt =
     (if data_scope = ''Holdings''
      then (fst (safe_chat lib holdings_df prompt), Inr (snd (safe_chat lib holdings_df prompt)))
      else if data_scope = ''Trades''
      then (fst (safe_chat lib trades_df prompt), Inr (snd (safe_chat lib trades_df prompt)))
      else ([PaiChat prompt [holdings_df, trades_df]],
            lib (PaiChat prompt [holdings_df, trades_df])))"

definition respond :: "pandasai \<Rightarrow> string \<Rightarrow> string \<Rightarrow> lib_call list \<times> pyval" where
  \<open>respond lib data_scope prompt =
     (case delegate lib data_scope prompt of
        (made, Inr response) \<Rightarrow> (made, response)
      | (made, Inl e) \<Rightarrow>
          (made, PStr (''I don't know '' @ [CHR 0xE2, CHR 0x80, CHR 0x94]
                       @ '' this information is not in the CSV.'')))\<close>

text \<open>The loop that draws the stored messages.\<close>

fun render_message :: "message \<Rightarrow> ui_event" where
  "render_message msg =
     ChatMessage (role msg)
       (case content msg of
          PDict items \<Rightarrow>
            (case map_of items ''dataframe'' of
               Some table \<Rightarrow> Dataframe table
             | None \<Rightarrow> Write (content msg))
        | PStr s \<Rightarrow> Write (content msg)
        | PObj ident has_head \<Rightarrow> Write (content msg))"

text \<open>
  The handling of a new message: the message list after it, the widgets drawn and the
  calls made.
\<close>

definition handle_prompt ::
  "pandasai \<Rightarrow> string \<Rightarrow> string option \<Rightarrow> message list
     \<Rightarrow> message list \<times> ui_event list \<times> lib_call list" where
  "handle_prompt lib data_scope chat_input msgs =
     (if truthy chat_input
      then
        let prompt = the chat_input;
            msgs1 = msgs @ [\<lparr>role = ''user'', content = PStr prompt\<rparr>];
            made = fst (respond lib data_scope prompt);
            response = snd (respond lib data_scope prompt)
        in if hasattr_head response
           then (msgs1 @ [\<lparr>role = ''assistant'', content = PDict [(''dataframe'', response)]\<rparr>],
                 [ChatMessage ''user'' (Write (PStr prompt)), Spinner ''Thinking...'',
                  ChatMessage ''assistant'' (Dataframe response)],
                 made)
           else (msgs1 @ [\<lparr>role = ''assistant'', content = response\<rparr>],
                 [ChatMessage ''user'' (Write (PStr prompt)), Spinner ''Thinking...'',
                  ChatMessage ''assistant'' (Write response)],
                 made)
      else (msgs, [], []))"

definition example_questions :: "string \<rightharpoonup> string list" where
  "example_questions =
     [''Holdings'' \<mapsto>
        [''Total number of holdings for Platpot'',
         ''Total holding quantity for Platpot'',
         ''Which fund has highest PL_YTD?''],
      ''Trades'' \<mapsto>
        [''Which symbol was traded most frequently?'',
         ''Total number of trades for HoldCo 11''],
      ''Holdings + Trades'' \<mapsto>
        [''Compare total holding quantity vs total traded quantity per symbol'']]"

definition sidebar_controls :: "ui_event list" where
  "sidebar_controls =
     [SidebarHeader ([CHR 0xE2, CHR 0x9A, CHR 0x99, CHR 0xEF, CHR 0xB8, CHR 0x8F] @ '' Controls''),
      SidebarSelectbox ''Choose data scope'' [''Holdings'', ''Trades'', ''Holdings + Trades''],
      SidebarMarkdown (''### '' @ [CHR 0xF0, CHR 0x9F, CHR 0x93, CHR 0x8C] @ '' Example questions'')]"

definition sidebar_examples :: "string list \<Rightarrow> ui_event list" where
  "sidebar_examples qs =
     map (\<lambda>q. SidebarWrite ([CHR 0xE2, CHR 0x80, CHR 0xA2] @ '' '' @ q)) qs
     @ [SidebarButton ([CHR 0xF0, CHR 0x9F, CHR 0xA7, CHR 0xB9] @ '' Clear chat'')]"

definition previews :: "ui_event list" where
  "previews =
     [Expander ([CHR 0xF0, CHR 0x9F, CHR 0x93, CHR 0x84] @ '' Preview Holdings Data'') holdings_df 50,
      Expander ([CHR 0xF0, CHR 0x9F, CHR 0x93, CHR 0x84] @ '' Preview Trades Data'') trades_df 50]"

text \<open>
  One run: the environment after \<^verbatim>\<open>load_dotenv\<close>, the library, the option chosen in
  the select box, whether the Clear chat button was pressed, what the chat input
  returned, and the session before the run.
\<close>

definition app_run ::
  "environ \<Rightarrow> pandasai \<Rightarrow> scope \<Rightarrow> bool \<Rightarrow> string option \<Rightarrow> session \<Rightarrow> run" where
  "app_run env lib selected clear_clicked chat_input s =
     (let msgs0 = (case messages s of None \<Rightarrow> [] | Some ms \<Rightarrow> ms);
          s0 = s\<lparr>messages := Some msgs0\<rparr>
      in
        if \<not> py_all (env_values env)
        then \<lparr>session_after = s0,
              ui = page_header
                   @ [ErrorBox ([CHR 0xE2, CHR 0x9D, CHR 0x8C]
                                @ '' Azure OpenAI environment variables are missing'')],
              constructed = [], pai_config = None, calls = [], ended = Stopped\<rparr>
        else
          let llm = fst (init_llm env (llm_cache s0));
              built = snd (init_llm env (llm_cache s0));
              s1 = s0\<lparr>llm_cache := Some llm\<rparr>;
              cfg = \<lparr>cfg_llm = llm, cfg_verbose = False, cfg_System_prompt = System_prompt\<rparr>;
              data_scope = scope_label selected
          in
            (case example_questions data_scope of
               None \<Rightarrow>
                 \<lparr>session_after = s1, ui = page_header @ sidebar_controls,
                  constructed = built, pai_config = Some cfg, calls = [],
                  ended = Crashed (Exc OtherException data_scope)\<rparr>
             | Some qs \<Rightarrow>
                 if clear_clicked
                 then \<lparr>session_after = s1\<lparr>messages := Some []\<rparr>,
                       ui = page_header @ sidebar_controls @ sidebar_examples qs,
                       constructed = built, pai_config = Some cfg, calls = [],
                       ended = Rerun\<rparr>
                 else
                   (case handle_prompt lib data_scope chat_input msgs0 of
                      (msgs1, drawn, made) \<Rightarrow>
                        \<lparr>session_after = s1\<lparr>messages := Some msgs1\<rparr>,
                         ui = page_header @ sidebar_controls @ sidebar_examples qs
                              @ map render_message msgs0
                              @ [ChatInput (''Ask a question about your CSV data''
                                            @ [CHR 0xE2, CHR 0x80, CHR 0xA6])]
                              @ drawn @ previews,
                         constructed = built, pai_config = Some cfg, calls = made,
                         ended = Completed\<rparr>)))"

text \<open>A session: the runs of the script, one per interaction, from the state before them.\<close>

record interaction =
  on_env :: environ
  on_lib :: pandasai
  on_scope :: scope
  on_clear :: bool
  on_input :: "string option"

fun app_session :: "interaction list \<Rightarrow> session \<Rightarrow> session" where
  "app_session [] s = s"
| "app_session (i # rest) s =
     app_session rest
       (session_after (app_run (on_env i) (on_lib i) (on_scope i) (on_clear i) (on_input i) s))"

definition fresh_session :: session where
  "fresh_session = \<lparr>messages = None, llm_cache = None\<rparr>"

definition stored_messages :: "session \<Rightarrow> message list" where
  "stored_messages s = (case messages s of None \<Rightarrow> [] | Some ms \<Rightarrow> ms)"


section \<open>Notions used to state the properties, and inputs of the examples\<close>

subsection \<open>Notions of the properties\<close>

text \<open>
  A variable is missing when it is unset or set to the empty string.
\<close>

definition missing :: "environ \<Rightarrow> string \<Rightarrow> bool" where
  "missing env name = (env name = None \<or> env name = Some [])"

text \<open>
  The fixed answer of the chat UI, written out once. The code writes this literal at
  each of its three places, and the system prompt quotes it; the properties below
  compare them with this text.
\<close>

definition fallback_text :: string where
  \<open>fallback_text =
     ''I don't know '' @ [CHR 0xE2, CHR 0x80, CHR 0x94] @ '' this information is not in the CSV.''\<close>

text \<open>
  The delegated call of a question under a scope: the chat of the holdings dataframe,
  the chat of the trades dataframe, or \<^verbatim>\<open>pai.chat\<close> with both. The response to a
  question is what that call returns, or the fixed answer when it raises; the assistant
  entry holds it, and the assistant message shows it, as a table when it has a
  \<^verbatim>\<open>head\<close> attribute.
\<close>

definition delegated_call :: "scope \<Rightarrow> string \<Rightarrow> lib_call" where
  "delegated_call selected question =
     (case selected of
        Holdings \<Rightarrow> DfChat holdings_df question
      | Trades \<Rightarrow> DfChat trades_df question
      | Holdings_Trades \<Rightarrow> PaiChat question [holdings_df, trades_df])"

definition response_of :: "pandasai \<Rightarrow> scope \<Rightarrow> string \<Rightarrow> pyval" where
  "response_of lib selected prompt =
     (case lib (delegated_call selected prompt) of
        Inr answer \<Rightarrow> answer
      | Inl e \<Rightarrow> PStr fallback_text)"

definition assistant_content :: "pyval \<Rightarrow> pyval" where
  "assistant_content response =
     (if hasattr_head response then PDict [(''dataframe'', response)] else response)"

definition assistant_widget :: "pyval \<Rightarrow> widget" where
  "assistant_widget response =
     (if hasattr_head response then Dataframe response else Write response)"



text \<open>
  The invariant of the message list.
\<close>

definition roles_ok :: "message list \<Rightarrow> bool" where
  "roles_ok msgs = list_all (\<lambda>msg. role msg = ''user'' \<or> role msg = ''assistant'') msgs"

text \<open>
  What the console loop prints for one question, from a given chain: the input prompt,
  then the answer or the error. What it prints when it stops reading: the input prompt,
  and the goodbye line if a line asked to leave.
\<close>

definition exchange :: "rag_library \<Rightarrow> rag_chain \<Rightarrow> string \<Rightarrow> console_event list" where
  \<open>exchange lib chain question =
     [Prompt ''You: '',
      case rag_chain_invoke lib chain question of
        Inr answer \<Rightarrow> Print (''\<newline>AI: '' @ answer @ ''\<newline>'')
      | Inl e \<Rightarrow> Print ([CHR 0xE2, CHR 0x9A, CHR 0xA0, CHR 0xEF, CHR 0xB8, CHR 0x8F]
                        @ '' Error: '' @ exc_str e @ ''\<newline>'')]\<close>

definition closing :: "string list \<Rightarrow> console_event list" where
  "closing stdin_lines =
     (if list_ex is_exit stdin_lines
      then [Prompt ''You: '', Print ([CHR 0xF0, CHR 0x9F, CHR 0x91, CHR 0x8B] @ '' Goodbye!'')]
      else [Prompt ''You: ''])"

subsection \<open>Inputs of the examples\<close>

text \<open>
  An environment with the four variables set; a retriever that fails on the question
  "boom" and otherwise returns the first k documents, with a chat model that always
  replies "42"; a dataframe library that returns an object with a \<^verbatim>\<open>head\<close>
  attribute for the holdings dataframe and raises otherwise; two interactions with
  the chat UI.
\<close>

definition demo_env :: environ where
  "demo_env =
     [''AZURE_OPENAI_API_KEY'' \<mapsto> ''key'', ''AZURE_OPENAI_ENDPOINT'' \<mapsto> ''https://example'',
      ''AZURE_OPENAI_DEPLOYMENT'' \<mapsto> ''gpt'', ''AZURE_OPENAI_API_VERSION'' \<mapsto> ''2024'']"

definition demo_rag_library :: rag_library where
  "demo_rag_library =
     \<lparr>retrieve = (\<lambda>r question.
         if question = ''boom'' then Inl (Exc OtherException ''index unavailable'')
         else Inr (take (search_k r) (indexed_docs (r_store r)))),
      docs_str = (\<lambda>docs. concat (map page_content docs)),
      chat_model = (\<lambda>llm filled. Inr (AIMessage ''42''))\<rparr>"

definition demo_pandasai :: pandasai where
  "demo_pandasai call =
     (case call of
        DfChat fn question \<Rightarrow>
          (case fn of
             holdings_df \<Rightarrow> Inr (PObj 1 True)
           | trades_df \<Rightarrow> Inl (Exc ExecuteSQLQueryNotUsed ''no query''))
      | PaiChat question frames \<Rightarrow> Inl (Exc OtherException ''timeout''))"

definition demo_interactions :: "interaction list" where
  "demo_interactions =
     [\<lparr>on_env = demo_env, on_lib = demo_pandasai, on_scope = Holdings, on_clear = False,
       on_input = Some ''Total quantity?''\<rparr>,
      \<lparr>on_env = demo_env, on_lib = demo_pandasai, on_scope = Trades, on_clear = False,
       on_input = Some ''How many trades?''\<rparr>]"


section \<open>Rows to documents: properties\<close>

lemma row_parts_acc:
  "row_parts row parts = parts @ [c @ '': '' @ s. (c, Some s) \<leftarrow> row]"
proof (induction row arbitrary: parts)
  case Nil
  then show ?case by simp
next
  case (Cons field rest)
  obtain col val where field: "field = (col, val)" by (cases field)
  show ?case
  proof (cases val)
    case None
    with field Cons show ?thesis by (simp add: notna_def)
  next
    case (Some s)
    with field Cons show ?thesis by (simp add: notna_def)
  qed
qed

lemma docs_loop_acc:
  "docs_loop df source docs =
     docs @ map (\<lambda>row. \<lparr>page_content = create_readable_text_from_row row,
                         metadata_source = source\<rparr>) df"
  by (induction df arbitrary: docs) simp_all

text \<open>
  C3. \<^verbatim>\<open>df_to_documents\<close> gives one document per row, in row order; the text of a row
  is its "column: value" pairs joined by ". " and closed by "."; the holdings frame is
  the first 1023 rows of its file, the trades frame the first 700; the combined list is
  the holdings documents, tagged "holding", followed by the trades documents, tagged
  "trade".
\<close>

theorem df_to_documents_per_row:
  "df_to_documents df source =
     map (\<lambda>row. \<lparr>page_content = join ''. '' [c @ '': '' @ s. (c, Some s) \<leftarrow> row] @ ''.'',
                 metadata_source = source\<rparr>) df
   \<and> length (df_to_documents df source) = length df
   \<and> holding_df holdings_csv = take 1023 holdings_csv
   \<and> trade_df trades_csv = take 700 trades_csv
   \<and> length (holding_df holdings_csv) = min 1023 (length holdings_csv)
   \<and> length (trade_df trades_csv) = min 700 (length trades_csv)
   \<and> documents holdings_csv trades_csv =
       df_to_documents (take 1023 holdings_csv) ''holding''
       @ df_to_documents (take 700 trades_csv) ''trade''
   \<and> map metadata_source (documents holdings_csv trades_csv) =
       replicate (min 1023 (length holdings_csv)) ''holding''
       @ replicate (min 700 (length trades_csv)) ''trade''"
proof -
  have docs: "df_to_documents d src =
      map (\<lambda>row. \<lparr>page_content = join ''. '' [c @ '': '' @ s. (c, Some s) \<leftarrow> row] @ ''.'',
                  metadata_source = src\<rparr>) d" for d src
    by (simp add: df_to_documents_def docs_loop_acc create_readable_text_from_row_def
        row_parts_acc)
  have len: "length (df_to_documents d src) = length d" for d src
    by (simp add: docs)
  have src: "map metadata_source (df_to_documents d src) = replicate (length d) src" for d src
    by (simp add: docs map_replicate_const o_def)
  have h: "holding_df holdings_csv = take 1023 holdings_csv"
    by (simp add: holding_df_def read_csv_def)
  have t: "trade_df trades_csv = take 700 trades_csv"
    by (simp add: trade_df_def read_csv_def)
  have all: "documents holdings_csv trades_csv =
       df_to_documents (take 1023 holdings_csv) ''holding''
       @ df_to_documents (take 700 trades_csv) ''trade''"
    by (simp add: documents_def h t)
  have tags: "map metadata_source (documents holdings_csv trades_csv) =
       replicate (min 1023 (length holdings_csv)) ''holding''
       @ replicate (min 700 (length trades_csv)) ''trade''"
    by (simp add: all src min.commute)
  show ?thesis
    using docs [of df source] len [of df source] h t all tags
    by (simp add: min.commute)
qed

text \<open>
  On two small frames: the texts with their ". " separators and closing ".", a null
  field left out, the tags, and the two caps on files of 2000 rows.
\<close>

theorem df_to_documents_per_row_witness:
  "df_to_documents
     [[(''Name'', Some ''Bond A''), (''Ticker'', None), (''Qty'', Some ''5'')],
      [(''Name'', Some ''Bond B'')]] ''holding'' =
     [\<lparr>page_content = ''Name: Bond A. Qty: 5.'', metadata_source = ''holding''\<rparr>,
      \<lparr>page_content = ''Name: Bond B.'', metadata_source = ''holding''\<rparr>]
   \<and> documents
       [[(''SecName'', Some ''Bond A''), (''Qty'', Some ''5''), (''Price'', Some ''101.5'')]]
       [[(''Name'', Some ''Bond A''), (''TradeTypeName'', Some ''Buy'')]] =
     [\<lparr>page_content = ''SecName: Bond A. Qty: 5. Price: 101.5.'', metadata_source = ''holding''\<rparr>,
      \<lparr>page_content = ''Name: Bond A. TradeTypeName: Buy.'', metadata_source = ''trade''\<rparr>]
   \<and> length (holding_df (replicate 2000 [])) = 1023
   \<and> length (trade_df (replicate 2000 [])) = 700"
proof -
  from df_to_documents_per_row
    [of "[[(''Name'', Some ''Bond A''), (''Ticker'', None), (''Qty'', Some ''5'')],
          [(''Name'', Some ''Bond B'')]]" "''holding''" "replicate 2000 []" "replicate 2000 []"]
  have a: "df_to_documents
     [[(''Name'', Some ''Bond A''), (''Ticker'', None), (''Qty'', Some ''5'')],
      [(''Name'', Some ''Bond B'')]] ''holding'' =
     [\<lparr>page_content = ''Name: Bond A. Qty: 5.'', metadata_source = ''holding''\<rparr>,
      \<lparr>page_content = ''Name: Bond B.'', metadata_source = ''holding''\<rparr>]"
    and c: "length (holding_df (replicate 2000 [])) = 1023"
    and d: "length (trade_df (replicate 2000 [])) = 700"
    by simp_all
  have one: "df_to_documents [[(''SecName'', Some ''Bond A''), (''Qty'', Some ''5''),
        (''Price'', Some ''101.5'')]] ''holding'' =
      [\<lparr>page_content = ''SecName: Bond A. Qty: 5. Price: 101.5.'',
        metadata_source = ''holding''\<rparr>]"
    using df_to_documents_per_row
      [of "[[(''SecName'', Some ''Bond A''), (''Qty'', Some ''5''), (''Price'', Some ''101.5'')]]"
        "''holding''" "[]" "[]"]
    by simp
  have two: "df_to_documents [[(''Name'', Some ''Bond A''), (''TradeTypeName'', Some ''Buy'')]]
        ''trade'' =
      [\<lparr>page_content = ''Name: Bond A. TradeTypeName: Buy.'', metadata_source = ''trade''\<rparr>]"
    using df_to_documents_per_row
      [of "[[(''Name'', Some ''Bond A''), (''TradeTypeName'', Some ''Buy'')]]" "''trade''" "[]" "[]"]
    by simp
  from df_to_documents_per_row
    [of "[]" "[]"
      "[[(''SecName'', Some ''Bond A''), (''Qty'', Some ''5''), (''Price'', Some ''101.5'')]]"
      "[[(''Name'', Some ''Bond A''), (''TradeTypeName'', Some ''Buy'')]]"] one two
  have b: "documents
       [[(''SecName'', Some ''Bond A''), (''Qty'', Some ''5''), (''Price'', Some ''101.5'')]]
       [[(''Name'', Some ''Bond A''), (''TradeTypeName'', Some ''Buy'')]] =
     [\<lparr>page_content = ''SecName: Bond A. Qty: 5. Price: 101.5.'', metadata_source = ''holding''\<rparr>,
      \<lparr>page_content = ''Name: Bond A. TradeTypeName: Buy.'', metadata_source = ''trade''\<rparr>]"
    by simp
  from a b c d show ?thesis by (intro conjI)
qed

text \<open>
  C9. \<^verbatim>\<open>create_readable_text_from_row\<close> leaves every null field out of the text: the
  text is built from the non-null fields alone, and is the same as for the row with its
  null fields removed. For a row whose values are all null, whatever its columns, the
  text is the single character ".".
\<close>

theorem create_readable_text_omits_nulls:
  "create_readable_text_from_row row =
     join ''. '' [c @ '': '' @ s. (c, Some s) \<leftarrow> row] @ ''.''
   \<and> create_readable_text_from_row row =
       create_readable_text_from_row (filter (\<lambda>(c, v). notna v) row)
   \<and> create_readable_text_from_row (map (\<lambda>c. (c, None)) cols) = ''.''
   \<and> (list_all (\<lambda>(c, v). \<not> notna v) row \<longrightarrow> create_readable_text_from_row row = ''.'')"
proof -
  have shape: "create_readable_text_from_row r =
      join ''. '' [c @ '': '' @ s. (c, Some s) \<leftarrow> r] @ ''.''" for r
    by (simp add: create_readable_text_from_row_def row_parts_acc)
  have keep: "[c @ '': '' @ s. (c, Some s) \<leftarrow> filter (\<lambda>(c, v). notna v) r] =
      [c @ '': '' @ s. (c, Some s) \<leftarrow> r]" for r :: row
    by (induction r) (auto simp: notna_def split: option.splits)
  have nulls: "[c @ '': '' @ s. (c, Some s) \<leftarrow> map (\<lambda>c. (c, None)) cs] = []"
    for cs :: "string list"
    by (induction cs) simp_all
  have a: "create_readable_text_from_row row =
      join ''. '' [c @ '': '' @ s. (c, Some s) \<leftarrow> row] @ ''.''"
    by (rule shape)
  have b: "create_readable_text_from_row row =
      create_readable_text_from_row (filter (\<lambda>(c, v). notna v) row)"
    by (simp only: shape keep)
  have c: "create_readable_text_from_row (map (\<lambda>c. (c, None)) cols) = ''.''"
    by (simp only: shape nulls) simp
  have none: "list_all (\<lambda>(c, v). \<not> notna v) r \<Longrightarrow> [c @ '': '' @ s. (c, Some s) \<leftarrow> r] = []"
    for r :: row
    by (induction r) (auto simp: notna_def)
  have d: "list_all (\<lambda>(c, v). \<not> notna v) row \<longrightarrow> create_readable_text_from_row row = ''.''"
    by (simp add: shape none)
  from a b c d show ?thesis by (intro conjI)
qed

theorem create_readable_text_omits_nulls_witness:
  "create_readable_text_from_row [(''Ticker'', None), (''Price'', None)] = ''.''
   \<and> create_readable_text_from_row
         [(''Name'', Some ''Bond A''), (''Ticker'', None), (''Price'', Some ''101.5'')] =
       ''Name: Bond A. Price: 101.5.''"
proof -
  have n: "list_all (\<lambda>(c, v). \<not> notna v) [(''Ticker'', None), (''Price'', None)]"
    by (simp add: notna_def)
  from create_readable_text_omits_nulls
    [of "[(''Ticker'', None), (''Price'', None)]" "[]"] n
  have a: "create_readable_text_from_row [(''Ticker'', None), (''Price'', None)] = ''.''"
    by simp
  from create_readable_text_omits_nulls
    [of "[(''Name'', Some ''Bond A''), (''Ticker'', None), (''Price'', Some ''101.5'')]" "[]"]
  have b: "create_readable_text_from_row
         [(''Name'', Some ''Bond A''), (''Ticker'', None), (''Price'', Some ''101.5'')] =
       ''Name: Bond A. Price: 101.5.''"
    by simp
  from a b show ?thesis by (intro conjI)
qed

section \<open>The console script: properties\<close>

lemma format_prompt_template:
  \<open>format_prompt prompt_template [''context'' \<mapsto> c, ''question'' \<mapsto> q] =
     Inr (''\<newline>You are a helpful data analyst.\<newline>\<newline>Rules:\<newline>- Use ONLY the information in the context\<newline>- If the answer is not present, say: "I don't have that information in the data"\<newline>- Mention whether the data came from holding or trade if relevant\<newline>- Do NOT guess or hallucinate\<newline>\<newline>Context:\<newline>''
          @ c @ ''\<newline>\<newline>Question:\<newline>'' @ q @ ''\<newline>\<newline>Answer:\<newline>'')\<close>
  by (simp add: prompt_template_def)

lemma py_all_env_values:
  "py_all (env_values env) =
     (\<not> missing env ''AZURE_OPENAI_API_KEY'' \<and> \<not> missing env ''AZURE_OPENAI_ENDPOINT''
      \<and> \<not> missing env ''AZURE_OPENAI_DEPLOYMENT'' \<and> \<not> missing env ''AZURE_OPENAI_API_VERSION'')"
proof -
  have t: "truthy v = (\<not> (v = None \<or> v = Some []))" for v
    by (cases v) simp_all
  show ?thesis
    by (simp add: env_values_def missing_def t)
qed

lemma rag_setup_Inr:
  assumes "rag_setup env holdings_csv trades_csv = Inr st"
  shows "py_all (env_values env)"
    and "st_documents st = documents holdings_csv trades_csv"
    and "st_vector_store st = \<lparr>indexed_docs = documents holdings_csv trades_csv,
            embeddings_model = ''sentence-transformers/all-MiniLM-L6-v2''\<rparr>"
    and "st_retriever st = \<lparr>r_store = st_vector_store st, search_type = ''similarity'',
            search_k = 100\<rparr>"
    and "st_prompt st = prompt_template"
    and "st_rag_chain st = \<lparr>chain_retriever = st_retriever st, chain_prompt = st_prompt st,
            chain_llm = st_llm st\<rparr>"
    and "st_llm st = \<lparr>azure_endpoint = the (env ''AZURE_OPENAI_ENDPOINT''),
                   azure_api_key = the (env ''AZURE_OPENAI_API_KEY''),
                   azure_api_version = the (env ''AZURE_OPENAI_API_VERSION''),
                   deployment_name = the (env ''AZURE_OPENAI_DEPLOYMENT''),
                   temperature = 0\<rparr>"
proof -
  have ok: "py_all (env_values env)"
  proof (rule ccontr)
    assume "\<not> py_all (env_values env)"
    with assms show False by (simp add: rag_setup_def)
  qed
  from assms ok have st: "st = projr (rag_setup env holdings_csv trades_csv)"
    by simp
  show "py_all (env_values env)" by (rule ok)
  show "st_documents st = documents holdings_csv trades_csv"
    unfolding st by (simp add: rag_setup_def ok Let_def)
  show "st_vector_store st = \<lparr>indexed_docs = documents holdings_csv trades_csv,
            embeddings_model = ''sentence-transformers/all-MiniLM-L6-v2''\<rparr>"
    unfolding st by (simp add: rag_setup_def ok Let_def)
  show "st_retriever st = \<lparr>r_store = st_vector_store st, search_type = ''similarity'',
            search_k = 100\<rparr>"
    unfolding st by (simp add: rag_setup_def ok Let_def)
  show "st_prompt st = prompt_template"
    unfolding st by (simp add: rag_setup_def ok Let_def)
  show "st_rag_chain st = \<lparr>chain_retriever = st_retriever st, chain_prompt = st_prompt st,
            chain_llm = st_llm st\<rparr>"
    unfolding st by (simp add: rag_setup_def ok Let_def)
  show "st_llm st = \<lparr>azure_endpoint = the (env ''AZURE_OPENAI_ENDPOINT''),
                   azure_api_key = the (env ''AZURE_OPENAI_API_KEY''),
                   azure_api_version = the (env ''AZURE_OPENAI_API_VERSION''),
                   deployment_name = the (env ''AZURE_OPENAI_DEPLOYMENT''),
                   temperature = 0\<rparr>"
    unfolding st by (simp add: rag_setup_def ok Let_def)
qed

text \<open>
  C4. Once set up, the script answers a question by one fixed pipeline: the retriever,
  a similarity search with k = 100 over the index built from the documents, returns the
  documents; they are put in as the context, and the question as it is, into the
  template; the filled text goes to the chat model; the text of its reply is the answer.
  An exception of the retriever or of the model is the outcome of the call.
\<close>

theorem rag_chain_is_fixed_pipeline:
  assumes "rag_setup env holdings_csv trades_csv = Inr st"
  shows \<open>search_type (st_retriever st) = ''similarity''
     \<and> search_k (st_retriever st) = 100
     \<and> indexed_docs (r_store (st_retriever st)) = documents holdings_csv trades_csv
     \<and> rag_chain_invoke lib (st_rag_chain st) question =
         (case retrieve lib (st_retriever st) question of
            Inl e \<Rightarrow> Inl e
          | Inr docs \<Rightarrow>
              (case chat_model lib (st_llm st)
                      (''\<newline>You are a helpful data analyst.\<newline>\<newline>Rules:\<newline>- Use ONLY the information in the context\<newline>- If the answer is not present, say: "I don't have that information in the data"\<newline>- Mention whether the data came from holding or trade if relevant\<newline>- Do NOT guess or hallucinate\<newline>\<newline>Context:\<newline>''
                       @ docs_str lib docs
                       @ ''\<newline>\<newline>Question:\<newline>'' @ question
                       @ ''\<newline>\<newline>Answer:\<newline>'') of
                 Inl e \<Rightarrow> Inl e
               | Inr (AIMessage reply) \<Rightarrow> Inr reply))\<close>
proof -
  note s = rag_setup_Inr [OF assms]
  have r: "search_type (st_retriever st) = ''similarity''"
    "search_k (st_retriever st) = 100"
    "indexed_docs (r_store (st_retriever st)) = documents holdings_csv trades_csv"
    by (simp_all add: s(4) s(3))
  have c: "chain_retriever (st_rag_chain st) = st_retriever st"
    "chain_prompt (st_rag_chain st) = prompt_template"
    "chain_llm (st_rag_chain st) = st_llm st"
    by (simp_all add: s(6) s(5))
  have i: "rag_chain_invoke lib (st_rag_chain st) question =
      (case retrieve lib (st_retriever st) question of
            Inl e \<Rightarrow> Inl e
          | Inr docs \<Rightarrow>
              (case format_prompt prompt_template
                      [''context'' \<mapsto> docs_str lib docs, ''question'' \<mapsto> question] of
                 Inl e \<Rightarrow> Inl e
               | Inr filled \<Rightarrow>
                  (case chat_model lib (st_llm st) filled of
                 Inl e \<Rightarrow> Inl e
               | Inr (AIMessage reply) \<Rightarrow> Inr reply)))"
    unfolding rag_chain_invoke_def c
    by (simp split: sum.splits ai_message.splits)
  show ?thesis
    unfolding i format_prompt_template using r by (simp cong: sum.case_cong)
qed

lemma demo_setup:
  "\<exists>st. rag_setup demo_env [[(''Qty'', Some ''5'')]] [] = Inr st"
  by (simp add: rag_setup_def demo_env_def env_values_def Let_def)

theorem rag_chain_is_fixed_pipeline_witness:
  "\<exists>st. rag_setup demo_env [[(''Qty'', Some ''5'')]] [] = Inr st
     \<and> search_k (st_retriever st) = 100
     \<and> rag_chain_invoke demo_rag_library (st_rag_chain st) ''How many?'' = Inr ''42''"
proof -
  obtain st where st: "rag_setup demo_env [[(''Qty'', Some ''5'')]] [] = Inr st"
    using demo_setup by blast
  from rag_chain_is_fixed_pipeline [OF st, of demo_rag_library "''How many?''"]
  have "search_k (st_retriever st) = 100"
    and "rag_chain_invoke demo_rag_library (st_rag_chain st) ''How many?'' = Inr ''42''"
    by (simp_all add: demo_rag_library_def)
  with st show ?thesis by blast
qed

lemma emit_static:
  "st_documents (emit ev st) = st_documents st"
  "st_vector_store (emit ev st) = st_vector_store st"
  "st_retriever (emit ev st) = st_retriever st"
  "st_llm (emit ev st) = st_llm st"
  "st_prompt (emit ev st) = st_prompt st"
  "st_rag_chain (emit ev st) = st_rag_chain st"
  "console (emit ev st) = console st @ [ev]"
  by (simp_all add: emit_def)

lemma qa_loop_static:
  "st_documents (fst (qa_loop lib st stdin_lines eof)) = st_documents st
   \<and> st_vector_store (fst (qa_loop lib st stdin_lines eof)) = st_vector_store st
   \<and> st_retriever (fst (qa_loop lib st stdin_lines eof)) = st_retriever st
   \<and> st_llm (fst (qa_loop lib st stdin_lines eof)) = st_llm st
   \<and> st_prompt (fst (qa_loop lib st stdin_lines eof)) = st_prompt st
   \<and> st_rag_chain (fst (qa_loop lib st stdin_lines eof)) = st_rag_chain st"
proof (induction stdin_lines arbitrary: st)
  case Nil
  show ?case by (simp add: emit_static)
next
  case (Cons q rest)
  show ?case
  proof (cases "is_exit q")
    case True
    then show ?thesis by (simp add: emit_static)
  next
    case False
    show ?thesis
    proof (cases "rag_chain_invoke lib (st_rag_chain st) q")
      case (Inl e)
      with False Cons show ?thesis by (simp add: emit_static)
    next
      case (Inr answer)
      with False Cons show ?thesis by (simp add: emit_static)
    qed
  qed
qed

lemma qa_loop_console:
  "console (fst (qa_loop lib st stdin_lines eof)) =
     console st
     @ concat (map (exchange lib (st_rag_chain st)) (takeWhile (\<lambda>q. \<not> is_exit q) stdin_lines))
     @ closing stdin_lines"
proof (induction stdin_lines arbitrary: st)
  case Nil
  show ?case by (simp add: emit_static closing_def)
next
  case (Cons q rest)
  show ?case
  proof (cases "is_exit q")
    case True
    then show ?thesis by (simp add: emit_static closing_def)
  next
    case False
    show ?thesis
    proof (cases "rag_chain_invoke lib (st_rag_chain st) q")
      case (Inl e)
      with False Cons show ?thesis by (simp add: emit_static closing_def exchange_def)
    next
      case (Inr answer)
      with False Cons show ?thesis by (simp add: emit_static closing_def exchange_def)
    qed
  qed
qed

lemma qa_loop_end:
  "snd (qa_loop lib st stdin_lines eof) =
     (if list_ex is_exit stdin_lines then Exited
      else if eof then Uncaught (Exc EOFError ''EOF when reading a line'')
      else Waiting)"
proof (induction stdin_lines arbitrary: st)
  case Nil
  show ?case by simp
next
  case (Cons q rest)
  show ?case
  proof (cases "is_exit q")
    case True
    then show ?thesis by simp
  next
    case False
    show ?thesis
    proof (cases "rag_chain_invoke lib (st_rag_chain st) q")
      case (Inl e)
      with False Cons show ?thesis by simp
    next
      case (Inr answer)
      with False Cons show ?thesis by simp
    qed
  qed
qed


text \<open>
  C7. The loop answers every question from the same index: whatever lines it has read,
  the documents, the vector store, the retriever, the template and the chain of its
  state are the ones it started with, so the chain answers a question as it would have
  at the start; and what the loop prints is, question after question, the exchange
  computed from the starting chain alone.
\<close>

theorem qa_loop_keeps_index:
  "st_documents (fst (qa_loop lib st stdin_lines eof)) = st_documents st
   \<and> st_vector_store (fst (qa_loop lib st stdin_lines eof)) = st_vector_store st
   \<and> st_retriever (fst (qa_loop lib st stdin_lines eof)) = st_retriever st
   \<and> st_prompt (fst (qa_loop lib st stdin_lines eof)) = st_prompt st
   \<and> st_rag_chain (fst (qa_loop lib st stdin_lines eof)) = st_rag_chain st
   \<and> rag_chain_invoke lib (st_rag_chain (fst (qa_loop lib st stdin_lines eof))) question =
       rag_chain_invoke lib (st_rag_chain st) question
   \<and> console (fst (qa_loop lib st stdin_lines eof)) =
       console st
       @ concat (map (exchange lib (st_rag_chain st))
                   (takeWhile (\<lambda>q. \<not> is_exit q) stdin_lines))
       @ closing stdin_lines"
proof -
  note frame = qa_loop_static [of lib st stdin_lines eof]
  have same: "rag_chain_invoke lib (st_rag_chain (fst (qa_loop lib st stdin_lines eof))) question =
       rag_chain_invoke lib (st_rag_chain st) question"
    using frame by simp
  from frame same qa_loop_console [of lib st stdin_lines eof] show ?thesis
    by (intro conjI) simp_all
qed

text \<open>
  C8, as the code has it. The loop leaves by its \<^verbatim>\<open>break\<close> exactly when a line it
  reads is, lowercased, "exit", "quit" or "q". When no such line arrives it ends only
  at the end of standard input, where \<^verbatim>\<open>input\<close> raises \<^verbatim>\<open>EOFError\<close> outside the
  \<^verbatim>\<open>try\<close>; while input is open it waits. For any other line, an exception raised
  while computing the answer is caught and printed, and the loop goes on with the next
  line.
\<close>

theorem qa_loop_stops:
  \<open>snd (qa_loop lib st stdin_lines eof) =
     (if list_ex is_exit stdin_lines then Exited
      else if eof then Uncaught (Exc EOFError ''EOF when reading a line'')
      else Waiting)
   \<and> is_exit q = (lower q = ''exit'' \<or> lower q = ''quit'' \<or> lower q = ''q'')
   \<and> (\<not> is_exit q \<and> rag_chain_invoke lib (st_rag_chain st) q = Inl e \<longrightarrow>
        qa_loop lib st (q # rest) eof =
          qa_loop lib
            (emit (Print ([CHR 0xE2, CHR 0x9A, CHR 0xA0, CHR 0xEF, CHR 0xB8, CHR 0x8F]
                          @ '' Error: '' @ exc_str e @ ''\<newline>''))
               (emit (Prompt ''You: '') st)) rest eof)\<close>
proof -
  have a: "is_exit q = (lower q = ''exit'' \<or> lower q = ''quit'' \<or> lower q = ''q'')"
    by (simp add: is_exit_def)
  have b: \<open>\<not> is_exit q \<and> rag_chain_invoke lib (st_rag_chain st) q = Inl e \<longrightarrow>
        qa_loop lib st (q # rest) eof =
          qa_loop lib
            (emit (Print ([CHR 0xE2, CHR 0x9A, CHR 0xA0, CHR 0xEF, CHR 0xB8, CHR 0x8F]
                          @ '' Error: '' @ exc_str e @ ''\<newline>''))
               (emit (Prompt ''You: '') st)) rest eof\<close>
    by simp
  from qa_loop_end [of lib st stdin_lines eof] a b show ?thesis
    by (intro conjI)
qed

lemma demo_invoke_boom:
  assumes "rag_setup demo_env [[(''Qty'', Some ''5'')]] [] = Inr st"
  shows "rag_chain_invoke demo_rag_library (st_rag_chain st) ''boom'' =
           Inl (Exc OtherException ''index unavailable'')"
  using rag_setup_Inr(6) [OF assms]
  by (simp add: rag_chain_invoke_def demo_rag_library_def)

lemma lower_examples:
  "lower ''QUIT'' = ''quit''" "lower ''boom'' = ''boom''" "lower ''hello'' = ''hello''"
  by code_simp+

theorem qa_loop_stops_witness:
  \<open>\<exists>st. rag_setup demo_env [[(''Qty'', Some ''5'')]] [] = Inr st
     \<and> snd (qa_loop demo_rag_library st [''boom'', ''QUIT''] True) = Exited
     \<and> qa_loop demo_rag_library st [''boom'', ''QUIT''] True =
         qa_loop demo_rag_library
           (emit (Print ([CHR 0xE2, CHR 0x9A, CHR 0xA0, CHR 0xEF, CHR 0xB8, CHR 0x8F]
                         @ '' Error: index unavailable\<newline>''))
              (emit (Prompt ''You: '') st)) [''QUIT''] True\<close>
proof -
  obtain st where st: "rag_setup demo_env [[(''Qty'', Some ''5'')]] [] = Inr st"
    using demo_setup by blast
  have no: "\<not> is_exit ''boom''" and yes: "is_exit ''QUIT''"
    by (simp_all add: is_exit_def lower_examples)
  from qa_loop_stops [of demo_rag_library st "[''boom'', ''QUIT'']" True "''boom''"
      "Exc OtherException ''index unavailable''" "[''QUIT'']"]
    demo_invoke_boom [OF st] no yes
  have "snd (qa_loop demo_rag_library st [''boom'', ''QUIT''] True) = Exited"
    and \<open>qa_loop demo_rag_library st [''boom'', ''QUIT''] True =
         qa_loop demo_rag_library
           (emit (Print ([CHR 0xE2, CHR 0x9A, CHR 0xA0, CHR 0xEF, CHR 0xB8, CHR 0x8F]
                         @ '' Error: index unavailable\<newline>''))
              (emit (Prompt ''You: '') st)) [''QUIT''] True\<close>
    by simp_all
  with st show ?thesis by blast
qed

text \<open>
  The loop can end without any of the three words: on the single line "hello" followed
  by the end of input, the script ends with an uncaught \<^verbatim>\<open>EOFError\<close>.
\<close>

theorem qa_loop_ends_at_eof:
  "map_sum id snd
     (rag_script demo_env [[(''Qty'', Some ''5'')]] [] demo_rag_library [''hello''] True) =
     Inr (Uncaught (Exc EOFError ''EOF when reading a line''))
   \<and> lower ''hello'' \<noteq> ''exit'' \<and> lower ''hello'' \<noteq> ''quit'' \<and> lower ''hello'' \<noteq> ''q''"
proof -
  obtain st where st: "rag_setup demo_env [[(''Qty'', Some ''5'')]] [] = Inr st"
    using demo_setup by blast
  have no: "\<not> is_exit ''hello''"
    by (simp add: is_exit_def lower_examples)
  have "snd (qa_loop demo_rag_library st [''hello''] True) =
      Uncaught (Exc EOFError ''EOF when reading a line'')"
    using qa_loop_end [of demo_rag_library st "[''hello'']" True] no
    by (simp del: qa_loop.simps)
  then show ?thesis
    by (simp add: rag_script_def st lower_examples)
qed


lemma app_run_missing:
  assumes "\<not> py_all (env_values env)"
  shows "ended (app_run env lib selected clear_clicked chat_input s) = Stopped"
    and "ui (app_run env lib selected clear_clicked chat_input s) =
           page_header
           @ [ErrorBox ([CHR 0xE2, CHR 0x9D, CHR 0x8C]
                        @ '' Azure OpenAI environment variables are missing'')]"
    and "constructed (app_run env lib selected clear_clicked chat_input s) = []"
    and "calls (app_run env lib selected clear_clicked chat_input s) = []"
    and "llm_cache (session_after (app_run env lib selected clear_clicked chat_input s)) =
           llm_cache s"
    and "stored_messages (session_after (app_run env lib selected clear_clicked chat_input s)) =
           stored_messages s"
  using assms by (simp_all add: app_run_def Let_def stored_messages_def split: option.splits)

lemma example_questions_label:
  "\<exists>qs. example_questions (scope_label selected) = Some qs"
  by (cases selected) (simp_all add: example_questions_def)

lemma app_run_constructed:
  assumes "constructed (app_run env lib selected clear_clicked chat_input s) \<noteq> []"
  shows "py_all (env_values env)"
proof (rule ccontr)
  assume "\<not> py_all (env_values env)"
  from app_run_missing(3) [OF this] assms show False by simp
qed

text \<open>
  C5. Both programs read the four variables and test them for presence. If one of them
  is unset or empty, the chat UI draws its error box and stops, having constructed no
  client, and the console script raises \<^verbatim>\<open>ValueError\<close>. In both programs a chat-model
  client is constructed only when all four are present.
\<close>

theorem env_validation:
  \<open>(missing env ''AZURE_OPENAI_API_KEY'' \<or> missing env ''AZURE_OPENAI_ENDPOINT''
     \<or> missing env ''AZURE_OPENAI_DEPLOYMENT'' \<or> missing env ''AZURE_OPENAI_API_VERSION'' \<longrightarrow>
       ended (app_run env lib selected clear_clicked chat_input s) = Stopped
       \<and> ui (app_run env lib selected clear_clicked chat_input s) =
           page_header
           @ [ErrorBox ([CHR 0xE2, CHR 0x9D, CHR 0x8C]
                        @ '' Azure OpenAI environment variables are missing'')]
       \<and> constructed (app_run env lib selected clear_clicked chat_input s) = []
       \<and> rag_script env holdings_csv trades_csv rag_lib stdin_lines eof =
           Inl (Exc ValueError
                  ([CHR 0xE2, CHR 0x9D, CHR 0x8C]
                   @ '' Missing Azure OpenAI environment variables'')))
   \<and> (constructed (app_run env lib selected clear_clicked chat_input s) \<noteq> [] \<longrightarrow>
       \<not> missing env ''AZURE_OPENAI_API_KEY'' \<and> \<not> missing env ''AZURE_OPENAI_ENDPOINT''
       \<and> \<not> missing env ''AZURE_OPENAI_DEPLOYMENT''
       \<and> \<not> missing env ''AZURE_OPENAI_API_VERSION'')
   \<and> (rag_setup env holdings_csv trades_csv = Inr st \<longrightarrow>
       \<not> missing env ''AZURE_OPENAI_API_KEY'' \<and> \<not> missing env ''AZURE_OPENAI_ENDPOINT''
       \<and> \<not> missing env ''AZURE_OPENAI_DEPLOYMENT''
       \<and> \<not> missing env ''AZURE_OPENAI_API_VERSION'')\<close>
proof (intro conjI impI)
  assume m: "missing env ''AZURE_OPENAI_API_KEY'' \<or> missing env ''AZURE_OPENAI_ENDPOINT''
     \<or> missing env ''AZURE_OPENAI_DEPLOYMENT'' \<or> missing env ''AZURE_OPENAI_API_VERSION''"
  then have no: "\<not> py_all (env_values env)"
    by (simp add: py_all_env_values)
  show "ended (app_run env lib selected clear_clicked chat_input s) = Stopped"
    by (rule app_run_missing(1) [OF no])
  show "ui (app_run env lib selected clear_clicked chat_input s) =
           page_header
           @ [ErrorBox ([CHR 0xE2, CHR 0x9D, CHR 0x8C]
                        @ '' Azure OpenAI environment variables are missing'')]"
    by (rule app_run_missing(2) [OF no])
  show "constructed (app_run env lib selected clear_clicked chat_input s) = []"
    by (rule app_run_missing(3) [OF no])
  show "rag_script env holdings_csv trades_csv rag_lib stdin_lines eof =
           Inl (Exc ValueError
                  ([CHR 0xE2, CHR 0x9D, CHR 0x8C]
                   @ '' Missing Azure OpenAI environment variables''))"
    using no by (simp add: rag_script_def rag_setup_def)
next
  assume "constructed (app_run env lib selected clear_clicked chat_input s) \<noteq> []"
  then have ok: "py_all (env_values env)" by (rule app_run_constructed)
  then show "\<not> missing env ''AZURE_OPENAI_API_KEY''" "\<not> missing env ''AZURE_OPENAI_ENDPOINT''"
    "\<not> missing env ''AZURE_OPENAI_DEPLOYMENT''" "\<not> missing env ''AZURE_OPENAI_API_VERSION''"
    by (simp_all add: py_all_env_values)
next
  assume "rag_setup env holdings_csv trades_csv = Inr st"
  then have ok: "py_all (env_values env)" by (rule rag_setup_Inr(1))
  then show "\<not> missing env ''AZURE_OPENAI_API_KEY''" "\<not> missing env ''AZURE_OPENAI_ENDPOINT''"
    "\<not> missing env ''AZURE_OPENAI_DEPLOYMENT''" "\<not> missing env ''AZURE_OPENAI_API_VERSION''"
    by (simp_all add: py_all_env_values)
qed


section \<open>The chat UI: properties\<close>

lemma join_append:
  "xs \<noteq> [] \<Longrightarrow> ys \<noteq> [] \<Longrightarrow> join sep (xs @ ys) = join sep xs @ sep @ join sep ys"
proof (induction sep xs rule: join.induct)
  case (1 sep)
  then show ?case by simp
next
  case (2 sep p)
  then show ?case by (cases ys) simp_all
next
  case (3 sep p q ps)
  then show ?case by simp
qed

lemma sublist_join:
  assumes "mid \<noteq> []"
  shows "sublist (join sep mid) (join sep (pre @ mid @ post))"
proof -
  have right: "\<exists>ss. join sep (mid @ post) = join sep mid @ ss"
  proof (cases post)
    case Nil
    then show ?thesis by simp
  next
    case (Cons a as)
    with assms show ?thesis by (simp add: join_append)
  qed
  then obtain ss where ss: "join sep (mid @ post) = join sep mid @ ss" by blast
  have "\<exists>ps. join sep (pre @ mid @ post) = ps @ join sep (mid @ post)"
  proof (cases pre)
    case Nil
    then show ?thesis by simp
  next
    case (Cons a as)
    with assms have "join sep (pre @ (mid @ post)) = join sep pre @ sep @ join sep (mid @ post)"
      by (intro join_append) simp_all
    then show ?thesis by (metis append.assoc)
  qed
  then obtain ps where "join sep (pre @ mid @ post) = ps @ join sep (mid @ post)" by blast
  with ss have "join sep (pre @ mid @ post) = ps @ join sep mid @ ss" by simp
  then show ?thesis unfolding sublist_def by blast
qed

lemma prompt_rule_lines:
  \<open>take 3 (drop 159 System_prompt_lines) =
     [''6. If the answer CANNOT be derived from the dataframe(s),'',
      ''   respond EXACTLY with:'',
      ''   "'' @ fallback_text @ ''"'']\<close>
  by (simp add: System_prompt_lines_def fallback_text_def)

lemma prompt_names_fallback:
  \<open>sublist
     (''6. If the answer CANNOT be derived from the dataframe(s),\<newline>   respond EXACTLY with:\<newline>   "''
        @ fallback_text @ ''"'')
     System_prompt\<close>
proof -
  let ?mid = "take 3 (drop 159 System_prompt_lines)"
  have split: "System_prompt_lines =
      take 159 System_prompt_lines @ ?mid @ drop 3 (drop 159 System_prompt_lines)"
    by (simp only: append_take_drop_id)
  have "?mid \<noteq> []" by (simp add: prompt_rule_lines)
  then have "sublist (join ''\<newline>'' ?mid)
      (join ''\<newline>'' (take 159 System_prompt_lines @ ?mid
          @ drop 3 (drop 159 System_prompt_lines)))"
    by (rule sublist_join)
  then have "sublist (join ''\<newline>'' ?mid) System_prompt"
    unfolding System_prompt_def using split by simp
  then show ?thesis
    by (simp add: prompt_rule_lines)
qed


lemma safe_chat_returns:
  "lib (DfChat fn question) = Inr answer \<Longrightarrow> snd (safe_chat lib fn question) = answer"
  by (simp add: safe_chat_def)

lemma safe_chat_raises:
  "lib (DfChat fn question) = Inl e \<Longrightarrow> snd (safe_chat lib fn question) = PStr fallback_text"
  by (cases e) (simp add: safe_chat_def fallback_text_def)



lemma respond_label_returns:
  assumes "lib (delegated_call selected prompt) = Inr answer"
  shows "snd (respond lib (scope_label selected) prompt) = answer"
  using assms
  by (cases selected)
    (simp_all add: respond_def delegate_def delegated_call_def safe_chat_returns)

lemma respond_label_raises:
  assumes "lib (delegated_call selected prompt) = Inl e"
  shows "snd (respond lib (scope_label selected) prompt) = PStr fallback_text"
  using assms
  by (cases selected)
    (simp_all add: respond_def delegate_def delegated_call_def safe_chat_raises
      fallback_text_def)

lemma handle_prompt_none:
  "\<not> truthy chat_input \<Longrightarrow> handle_prompt lib data_scope chat_input msgs = (msgs, [], [])"
  by (simp add: handle_prompt_def)

lemma handle_prompt_some:
  assumes "prompt \<noteq> []"
  shows "handle_prompt lib data_scope (Some prompt) msgs =
     (msgs @ [\<lparr>role = ''user'', content = PStr prompt\<rparr>,
              \<lparr>role = ''assistant'',
               content = assistant_content (snd (respond lib data_scope prompt))\<rparr>],
      [ChatMessage ''user'' (Write (PStr prompt)), Spinner ''Thinking...'',
       ChatMessage ''assistant'' (assistant_widget (snd (respond lib data_scope prompt)))],
      fst (respond lib data_scope prompt))"
  using assms
  by (simp add: handle_prompt_def Let_def assistant_content_def assistant_widget_def)

lemma app_run_ok:
  assumes ok: "py_all (env_values env)" and noclear: "\<not> clear_clicked"
    and qs: "example_questions (scope_label selected) = Some qs"
  shows "stored_messages (session_after (app_run env lib selected clear_clicked chat_input s)) =
           fst (handle_prompt lib (scope_label selected) chat_input (stored_messages s))"
    and "ui (app_run env lib selected clear_clicked chat_input s) =
           page_header @ sidebar_controls @ sidebar_examples qs
           @ map render_message (stored_messages s)
           @ [ChatInput (''Ask a question about your CSV data'' @ [CHR 0xE2, CHR 0x80, CHR 0xA6])]
           @ fst (snd (handle_prompt lib (scope_label selected) chat_input (stored_messages s)))
           @ previews"
    and "calls (app_run env lib selected clear_clicked chat_input s) =
           snd (snd (handle_prompt lib (scope_label selected) chat_input (stored_messages s)))"
    and "ended (app_run env lib selected clear_clicked chat_input s) = Completed"
  using ok noclear qs
  by (simp_all add: app_run_def Let_def stored_messages_def split: prod.splits)

lemma app_run_clear:
  assumes ok: "py_all (env_values env)"
  shows "stored_messages (session_after (app_run env lib selected True chat_input s)) = []"
    and "ended (app_run env lib selected True chat_input s) = Rerun"
    and "calls (app_run env lib selected True chat_input s) = []"
proof -
  obtain qs where qs: "example_questions (scope_label selected) = Some qs"
    using example_questions_label by blast
  show "stored_messages (session_after (app_run env lib selected True chat_input s)) = []"
    using ok qs by (simp add: app_run_def Let_def stored_messages_def)
  show "ended (app_run env lib selected True chat_input s) = Rerun"
    using ok qs by (simp add: app_run_def Let_def)
  show "calls (app_run env lib selected True chat_input s) = []"
    using ok qs by (simp add: app_run_def Let_def)
qed

lemma demo_env_ok: "py_all (env_values demo_env)"
  by (simp add: env_values_def demo_env_def)

text \<open>
  C1. Whatever the scope, when the delegated call of a submitted question raises, the
  assistant message drawn and the assistant entry appended to the history are the fixed
  fallback text, and this text is, byte for byte, the one that rule 6 of the system
  prompt tells the library to answer with. The prompt is the one the run hands to
  \<^verbatim>\<open>pai.config.set\<close>.
\<close>

theorem exception_gives_fallback:
  assumes "py_all (env_values env)" and "prompt \<noteq> []"
    and "lib (delegated_call selected prompt) = Inl e"
  shows \<open>stored_messages (session_after (app_run env lib selected False (Some prompt) s)) =
           stored_messages s
           @ [\<lparr>role = ''user'', content = PStr prompt\<rparr>,
              \<lparr>role = ''assistant'', content = PStr fallback_text\<rparr>]
     \<and> (\<exists>before. ui (app_run env lib selected False (Some prompt) s) =
           before
           @ [ChatMessage ''user'' (Write (PStr prompt)), Spinner ''Thinking...'',
              ChatMessage ''assistant'' (Write (PStr fallback_text))]
           @ previews)
     \<and> fallback_text =
         ''I don't know '' @ [CHR 0xE2, CHR 0x80, CHR 0x94]
         @ '' this information is not in the CSV.''
     \<and> sublist
         (''6. If the answer CANNOT be derived from the dataframe(s),\<newline>   respond EXACTLY with:\<newline>   "''
            @ fallback_text @ ''"'')
         System_prompt
     \<and> pai_config (app_run env lib selected False (Some prompt) s) =
         Some \<lparr>cfg_llm = fst (init_llm env (llm_cache s)), cfg_verbose = False,
               cfg_System_prompt = System_prompt\<rparr>\<close>
proof -
  obtain qs where qs: "example_questions (scope_label selected) = Some qs"
    using example_questions_label by blast
  note run = app_run_ok [OF assms(1) _ qs, of False lib "Some prompt" s, simplified]
  have r: "snd (respond lib (scope_label selected) prompt) = PStr fallback_text"
    using assms(3) by (rule respond_label_raises)
  have h: "handle_prompt lib (scope_label selected) (Some prompt) (stored_messages s) =
     (stored_messages s @ [\<lparr>role = ''user'', content = PStr prompt\<rparr>,
              \<lparr>role = ''assistant'', content = PStr fallback_text\<rparr>],
      [ChatMessage ''user'' (Write (PStr prompt)), Spinner ''Thinking...'',
       ChatMessage ''assistant'' (Write (PStr fallback_text))],
      fst (respond lib (scope_label selected) prompt))"
    by (simp add: handle_prompt_some [OF assms(2)] r assistant_content_def
        assistant_widget_def)
  have a: "stored_messages (session_after (app_run env lib selected False (Some prompt) s)) =
           stored_messages s
           @ [\<lparr>role = ''user'', content = PStr prompt\<rparr>,
              \<lparr>role = ''assistant'', content = PStr fallback_text\<rparr>]"
    by (simp add: run(1) h)
  define before where "before =
           page_header @ sidebar_controls @ sidebar_examples qs
            @ map render_message (stored_messages s)
            @ [ChatInput (''Ask a question about your CSV data''
                          @ [CHR 0xE2, CHR 0x80, CHR 0xA6])]"
  have "ui (app_run env lib selected False (Some prompt) s) =
           before
           @ [ChatMessage ''user'' (Write (PStr prompt)), Spinner ''Thinking...'',
              ChatMessage ''assistant'' (Write (PStr fallback_text))]
           @ previews"
    by (simp add: run(2) h before_def)
  then have b: "\<exists>before. ui (app_run env lib selected False (Some prompt) s) =
           before
           @ [ChatMessage ''user'' (Write (PStr prompt)), Spinner ''Thinking...'',
              ChatMessage ''assistant'' (Write (PStr fallback_text))]
           @ previews"
    by (rule exI [of _ before])
  have c: \<open>fallback_text =
         ''I don't know '' @ [CHR 0xE2, CHR 0x80, CHR 0x94]
         @ '' this information is not in the CSV.''\<close>
    by (simp add: fallback_text_def)
  have d: "pai_config (app_run env lib selected False (Some prompt) s) =
         Some \<lparr>cfg_llm = fst (init_llm env (llm_cache s)), cfg_verbose = False,
               cfg_System_prompt = System_prompt\<rparr>"
    using assms(1) qs by (simp add: app_run_def Let_def split: prod.splits)
  from a b c prompt_names_fallback d show ?thesis
    by (intro conjI)
qed

theorem exception_gives_fallback_witness:
  "stored_messages
     (session_after (app_run demo_env demo_pandasai Trades False (Some ''How many trades?'')
        fresh_session)) =
     [\<lparr>role = ''user'', content = PStr ''How many trades?''\<rparr>,
      \<lparr>role = ''assistant'', content = PStr fallback_text\<rparr>]
   \<and> demo_pandasai (DfChat trades_df ''How many trades?'') =
       Inl (Exc ExecuteSQLQueryNotUsed ''no query'')"
proof -
  have e: "demo_pandasai (delegated_call Trades ''How many trades?'') =
       Inl (Exc ExecuteSQLQueryNotUsed ''no query'')"
    by (simp add: demo_pandasai_def delegated_call_def)
  have p: "''How many trades?'' \<noteq> []" by simp
  from exception_gives_fallback [of demo_env "''How many trades?''" demo_pandasai Trades
      "Exc ExecuteSQLQueryNotUsed ''no query''" fresh_session, OF demo_env_ok p e] e
  show ?thesis
    by (simp add: stored_messages_def fresh_session_def delegated_call_def)
qed




lemma respond_label_value:
  "snd (respond lib (scope_label selected) prompt) = response_of lib selected prompt"
proof (cases "lib (delegated_call selected prompt)")
  case (Inl e)
  then show ?thesis by (simp add: response_of_def respond_label_raises)
next
  case (Inr answer)
  then show ?thesis by (simp add: response_of_def respond_label_returns)
qed

lemma app_run_prompt:
  assumes ok: "py_all (env_values env)" and p: "prompt \<noteq> []"
  shows "stored_messages (session_after (app_run env lib selected False (Some prompt) s)) =
           stored_messages s
           @ [\<lparr>role = ''user'', content = PStr prompt\<rparr>,
              \<lparr>role = ''assistant'',
               content = assistant_content (response_of lib selected prompt)\<rparr>]"
proof -
  obtain qs where qs: "example_questions (scope_label selected) = Some qs"
    using example_questions_label by blast
  from app_run_ok(1) [OF ok _ qs, of False lib "Some prompt" s] show ?thesis
    by (simp add: handle_prompt_some [OF p] respond_label_value)
qed

text \<open>
  C6. A non-empty prompt appends two entries to the message list, in this order: the
  user entry with the prompt, then the assistant entry with the response (inside a
  dictionary under "dataframe" when the response has a \<^verbatim>\<open>head\<close> attribute). A run
  draws the stored messages in list order, before the chat input; a dictionary content
  with a "dataframe" key is drawn as a table, any other content as text.
\<close>

theorem prompt_appends_user_then_assistant:
  assumes "py_all (env_values env)" and "prompt \<noteq> []"
  shows "stored_messages (session_after (app_run env lib selected False (Some prompt) s)) =
           stored_messages s
           @ [\<lparr>role = ''user'', content = PStr prompt\<rparr>,
              \<lparr>role = ''assistant'',
               content = (if hasattr_head (response_of lib selected prompt)
                          then PDict [(''dataframe'', response_of lib selected prompt)]
                          else response_of lib selected prompt)\<rparr>]
     \<and> (\<exists>qs. ui (app_run env lib selected False (Some prompt) s) =
           page_header @ sidebar_controls @ sidebar_examples qs
           @ map render_message (stored_messages s)
           @ [ChatInput (''Ask a question about your CSV data'' @ [CHR 0xE2, CHR 0x80, CHR 0xA6]),
              ChatMessage ''user'' (Write (PStr prompt)), Spinner ''Thinking...'',
              ChatMessage ''assistant''
                (if hasattr_head (response_of lib selected prompt)
                 then Dataframe (response_of lib selected prompt)
                 else Write (response_of lib selected prompt))]
           @ previews)
     \<and> (\<exists>qs drawn. ui (app_run env lib selected False chat_input s) =
           page_header @ sidebar_controls @ sidebar_examples qs
           @ map render_message (stored_messages s)
           @ [ChatInput (''Ask a question about your CSV data'' @ [CHR 0xE2, CHR 0x80, CHR 0xA6])]
           @ drawn @ previews)
     \<and> (map_of items ''dataframe'' = Some table \<longrightarrow>
          render_message \<lparr>role = r, content = PDict items\<rparr> = ChatMessage r (Dataframe table))
     \<and> (map_of items ''dataframe'' = None \<longrightarrow>
          render_message \<lparr>role = r, content = PDict items\<rparr> = ChatMessage r (Write (PDict items)))
     \<and> render_message \<lparr>role = r, content = PStr t\<rparr> = ChatMessage r (Write (PStr t))
     \<and> render_message \<lparr>role = r, content = PObj ident has_head\<rparr> =
         ChatMessage r (Write (PObj ident has_head))"
proof -
  obtain qs where qs: "example_questions (scope_label selected) = Some qs"
    using example_questions_label by blast
  have a: "stored_messages (session_after (app_run env lib selected False (Some prompt) s)) =
           stored_messages s
           @ [\<lparr>role = ''user'', content = PStr prompt\<rparr>,
              \<lparr>role = ''assistant'',
               content = (if hasattr_head (response_of lib selected prompt)
                          then PDict [(''dataframe'', response_of lib selected prompt)]
                          else response_of lib selected prompt)\<rparr>]"
    using app_run_prompt [OF assms, of lib selected s] by (simp add: assistant_content_def)
  have "ui (app_run env lib selected False (Some prompt) s) =
           page_header @ sidebar_controls @ sidebar_examples qs
           @ map render_message (stored_messages s)
           @ [ChatInput (''Ask a question about your CSV data'' @ [CHR 0xE2, CHR 0x80, CHR 0xA6]),
              ChatMessage ''user'' (Write (PStr prompt)), Spinner ''Thinking...'',
              ChatMessage ''assistant''
                (if hasattr_head (response_of lib selected prompt)
                 then Dataframe (response_of lib selected prompt)
                 else Write (response_of lib selected prompt))]
           @ previews"
    using app_run_ok(2) [OF assms(1) _ qs, of False lib "Some prompt" s]
    by (simp add: handle_prompt_some [OF assms(2)] respond_label_value assistant_widget_def)
  then have b: "\<exists>qs. ui (app_run env lib selected False (Some prompt) s) =
           page_header @ sidebar_controls @ sidebar_examples qs
           @ map render_message (stored_messages s)
           @ [ChatInput (''Ask a question about your CSV data'' @ [CHR 0xE2, CHR 0x80, CHR 0xA6]),
              ChatMessage ''user'' (Write (PStr prompt)), Spinner ''Thinking...'',
              ChatMessage ''assistant''
                (if hasattr_head (response_of lib selected prompt)
                 then Dataframe (response_of lib selected prompt)
                 else Write (response_of lib selected prompt))]
           @ previews"
    by (rule exI [of _ qs])
  define drawn where
    "drawn = fst (snd (handle_prompt lib (scope_label selected) chat_input (stored_messages s)))"
  have "ui (app_run env lib selected False chat_input s) =
           page_header @ sidebar_controls @ sidebar_examples qs
           @ map render_message (stored_messages s)
           @ [ChatInput (''Ask a question about your CSV data'' @ [CHR 0xE2, CHR 0x80, CHR 0xA6])]
           @ drawn @ previews"
    using app_run_ok(2) [OF assms(1) _ qs, of False lib chat_input s]
    by (simp add: drawn_def)
  then have "\<exists>drawn. ui (app_run env lib selected False chat_input s) =
           page_header @ sidebar_controls @ sidebar_examples qs
           @ map render_message (stored_messages s)
           @ [ChatInput (''Ask a question about your CSV data'' @ [CHR 0xE2, CHR 0x80, CHR 0xA6])]
           @ drawn @ previews"
    by (rule exI [of _ drawn])
  then have c: "\<exists>qs drawn. ui (app_run env lib selected False chat_input s) =
           page_header @ sidebar_controls @ sidebar_examples qs
           @ map render_message (stored_messages s)
           @ [ChatInput (''Ask a question about your CSV data'' @ [CHR 0xE2, CHR 0x80, CHR 0xA6])]
           @ drawn @ previews"
    by (rule exI [of _ qs])
  have d: "map_of items ''dataframe'' = Some table \<longrightarrow>
          render_message \<lparr>role = r, content = PDict items\<rparr> = ChatMessage r (Dataframe table)"
    by simp
  have e: "map_of items ''dataframe'' = None \<longrightarrow>
          render_message \<lparr>role = r, content = PDict items\<rparr> = ChatMessage r (Write (PDict items))"
    by simp
  have f: "render_message \<lparr>role = r, content = PStr t\<rparr> = ChatMessage r (Write (PStr t))"
    by simp
  have g: "render_message \<lparr>role = r, content = PObj ident has_head\<rparr> =
         ChatMessage r (Write (PObj ident has_head))"
    by simp
  from a b c d e f g show ?thesis
    by (intro conjI)
qed

theorem prompt_appends_user_then_assistant_witness:
  "stored_messages
     (session_after (app_run demo_env demo_pandasai Holdings False (Some ''Total quantity?'')
        fresh_session)) =
     [\<lparr>role = ''user'', content = PStr ''Total quantity?''\<rparr>,
      \<lparr>role = ''assistant'', content = PDict [(''dataframe'', PObj 1 True)]\<rparr>]
   \<and> render_message \<lparr>role = ''assistant'', content = PDict [(''dataframe'', PObj 1 True)]\<rparr> =
       ChatMessage ''assistant'' (Dataframe (PObj 1 True))"
proof -
  have p: "''Total quantity?'' \<noteq> []" by simp
  have m: "map_of [(''dataframe'', PObj 1 True)] ''dataframe'' = Some (PObj 1 True)" by simp
  have r: "response_of demo_pandasai Holdings ''Total quantity?'' = PObj 1 True"
    by (simp add: response_of_def delegated_call_def demo_pandasai_def)
  from prompt_appends_user_then_assistant [of demo_env "''Total quantity?''" demo_pandasai
      Holdings fresh_session None "[(''dataframe'', PObj 1 True)]" "PObj 1 True" "''assistant''",
      OF demo_env_ok p] m r
  show ?thesis
    by (simp add: stored_messages_def fresh_session_def)
qed

lemma app_run_messages:
  "stored_messages (session_after (app_run env lib selected clear_clicked chat_input s)) =
     (if \<not> py_all (env_values env) then stored_messages s
      else if clear_clicked then []
      else if truthy chat_input
      then stored_messages s
           @ [\<lparr>role = ''user'', content = PStr (the chat_input)\<rparr>,
              \<lparr>role = ''assistant'',
               content = assistant_content (response_of lib selected (the chat_input))\<rparr>]
      else stored_messages s)"
proof (cases "py_all (env_values env)")
  case False
  then show ?thesis by (simp add: app_run_missing(6))
next
  case ok: True
  show ?thesis
  proof (cases clear_clicked)
    case True
    with ok show ?thesis by (simp add: app_run_clear(1))
  next
    case noclear: False
    obtain qs where qs: "example_questions (scope_label selected) = Some qs"
      using example_questions_label by blast
    show ?thesis
    proof (cases "truthy chat_input")
      case True
      then obtain p where p: "chat_input = Some p" "p \<noteq> []"
        by (cases chat_input) simp_all
      with ok noclear app_run_prompt [OF ok p(2), of lib selected s] show ?thesis by simp
    next
      case False
      with ok noclear app_run_ok(1) [OF ok noclear qs, of lib chat_input s] show ?thesis
        by (simp add: handle_prompt_none)
    qed
  qed
qed

lemma app_run_roles:
  assumes "roles_ok (stored_messages s)"
  shows "roles_ok (stored_messages
           (session_after (app_run env lib selected clear_clicked chat_input s)))"
  using assms by (simp add: app_run_messages roles_ok_def)

lemma app_session_roles:
  "roles_ok (stored_messages s) \<Longrightarrow> roles_ok (stored_messages (app_session interactions s))"
proof (induction interactions arbitrary: s)
  case Nil
  then show ?case by simp
next
  case (Cons i rest)
  from Cons.prems have "roles_ok (stored_messages
      (session_after (app_run (on_env i) (on_lib i) (on_scope i) (on_clear i) (on_input i) s)))"
    by (rule app_run_roles)
  then show ?case by (simp add: Cons.IH)
qed

text \<open>
  C10. Every entry of the message list has role "user" or "assistant": in the empty
  list of a new session, after any run from a list that has the property, hence after
  any sequence of runs. The runs change the list by appending a user entry and an
  assistant entry, or, on Clear chat, by emptying it.
\<close>

theorem roles_are_user_or_assistant:
  "roles_ok (stored_messages fresh_session)
   \<and> (roles_ok (stored_messages s) \<longrightarrow>
        roles_ok (stored_messages
          (session_after (app_run env lib selected clear_clicked chat_input s))))
   \<and> roles_ok (stored_messages (app_session interactions fresh_session))
   \<and> (py_all (env_values env) \<longrightarrow>
        stored_messages (session_after (app_run env lib selected True chat_input s)) = [])
   \<and> (py_all (env_values env) \<and> prompt \<noteq> [] \<longrightarrow>
        map role (stored_messages (session_after (app_run env lib selected False (Some prompt) s))) =
          map role (stored_messages s) @ [''user'', ''assistant''])
   \<and> roles_ok msgs = list_all (\<lambda>msg. role msg = ''user'' \<or> role msg = ''assistant'') msgs"
proof -
  have a: "roles_ok (stored_messages fresh_session)"
    by (simp add: roles_ok_def stored_messages_def fresh_session_def)
  have b: "roles_ok (stored_messages s) \<longrightarrow>
        roles_ok (stored_messages
          (session_after (app_run env lib selected clear_clicked chat_input s)))"
    by (simp add: app_run_roles)
  have c: "roles_ok (stored_messages (app_session interactions fresh_session))"
    using a by (rule app_session_roles)
  have d: "py_all (env_values env) \<longrightarrow>
        stored_messages (session_after (app_run env lib selected True chat_input s)) = []"
    by (simp add: app_run_clear(1))
  have e: "py_all (env_values env) \<and> prompt \<noteq> [] \<longrightarrow>
        map role (stored_messages (session_after (app_run env lib selected False (Some prompt) s))) =
          map role (stored_messages s) @ [''user'', ''assistant'']"
    by (simp add: app_run_prompt)
  have f: "roles_ok msgs = list_all (\<lambda>msg. role msg = ''user'' \<or> role msg = ''assistant'') msgs"
    by (simp add: roles_ok_def)
  from a b c d e f show ?thesis
    by (intro conjI)
qed

theorem roles_are_user_or_assistant_witness:
  "map role (stored_messages (app_session demo_interactions fresh_session)) =
     [''user'', ''assistant'', ''user'', ''assistant'']
   \<and> roles_ok (stored_messages (app_session demo_interactions fresh_session))
   \<and> stored_messages
       (session_after (app_run demo_env demo_pandasai Trades True None
          (app_session demo_interactions fresh_session))) = []"
proof -
  have p: "''Total quantity?'' \<noteq> []" "''How many trades?'' \<noteq> []" by simp_all
  let ?s1 = "session_after (app_run demo_env demo_pandasai Holdings False
      (Some ''Total quantity?'') fresh_session)"
  have run: "app_session demo_interactions fresh_session =
      session_after (app_run demo_env demo_pandasai Trades False (Some ''How many trades?'') ?s1)"
    by (simp add: demo_interactions_def)
  from roles_are_user_or_assistant [of fresh_session demo_env demo_pandasai Holdings False
      None demo_interactions "''Total quantity?''" "[]"] demo_env_ok p
  have one: "map role (stored_messages ?s1) = [''user'', ''assistant'']"
    by (simp add: stored_messages_def fresh_session_def)
  from roles_are_user_or_assistant [of ?s1 demo_env demo_pandasai Trades False
      None demo_interactions "''How many trades?''" "[]"] demo_env_ok p one
  have two: "map role (stored_messages (app_session demo_interactions fresh_session)) =
     [''user'', ''assistant'', ''user'', ''assistant'']"
    and ok: "roles_ok (stored_messages (app_session demo_interactions fresh_session))"
    by (simp_all add: run)
  from roles_are_user_or_assistant [of "app_session demo_interactions fresh_session" demo_env
      demo_pandasai Trades False None demo_interactions "''x''" "[]"] demo_env_ok
  have three: "stored_messages
       (session_after (app_run demo_env demo_pandasai Trades True None
          (app_session demo_interactions fresh_session))) = []"
    by simp
  from two ok three show ?thesis by (intro conjI)
qed

theorem env_validation_witness:
  \<open>ended (app_run (demo_env(''AZURE_OPENAI_ENDPOINT'' \<mapsto> [])) demo_pandasai Holdings False
            (Some ''Total quantity?'') fresh_session) = Stopped
   \<and> rag_script (demo_env(''AZURE_OPENAI_API_KEY'' := None)) [] [] demo_rag_library [] True =
       Inl (Exc ValueError
              ([CHR 0xE2, CHR 0x9D, CHR 0x8C] @ '' Missing Azure OpenAI environment variables''))
   \<and> constructed (app_run demo_env demo_pandasai Holdings False None fresh_session) =
       [\<lparr>model = ''azure/gpt'', api_key = ''key'', api_base = ''https://example'',
         api_version = ''2024''\<rparr>]
   \<and> \<not> missing demo_env ''AZURE_OPENAI_API_KEY''\<close>
proof -
  have m1: "missing (demo_env(''AZURE_OPENAI_ENDPOINT'' \<mapsto> [])) ''AZURE_OPENAI_ENDPOINT''"
    by (simp add: missing_def)
  have m2: "missing (demo_env(''AZURE_OPENAI_API_KEY'' := None)) ''AZURE_OPENAI_API_KEY''"
    by (simp add: missing_def)
  have built: "constructed (app_run demo_env demo_pandasai Holdings False None fresh_session) =
       [\<lparr>model = ''azure/gpt'', api_key = ''key'', api_base = ''https://example'',
         api_version = ''2024''\<rparr>]"
  proof -
    have v: "demo_env ''AZURE_OPENAI_DEPLOYMENT'' = Some ''gpt''"
      "demo_env ''AZURE_OPENAI_API_KEY'' = Some ''key''"
      "demo_env ''AZURE_OPENAI_ENDPOINT'' = Some ''https://example''"
      "demo_env ''AZURE_OPENAI_API_VERSION'' = Some ''2024''"
      by (simp_all add: demo_env_def)
    show ?thesis
      by (simp add: app_run_def demo_env_ok Let_def example_questions_def init_llm_def
          fresh_session_def v split: prod.splits)
  qed
  from env_validation [of "demo_env(''AZURE_OPENAI_ENDPOINT'' \<mapsto> [])" demo_pandasai Holdings
      False "Some ''Total quantity?''" fresh_session "[]" "[]" demo_rag_library "[]" True] m1
  have a: "ended (app_run (demo_env(''AZURE_OPENAI_ENDPOINT'' \<mapsto> [])) demo_pandasai Holdings
      False (Some ''Total quantity?'') fresh_session) = Stopped"
    by simp
  from env_validation [of "demo_env(''AZURE_OPENAI_API_KEY'' := None)" demo_pandasai Holdings
      False "Some ''Total quantity?''" fresh_session "[]" "[]" demo_rag_library "[]" True] m2
  have b: \<open>rag_script (demo_env(''AZURE_OPENAI_API_KEY'' := None)) [] [] demo_rag_library [] True =
       Inl (Exc ValueError
              ([CHR 0xE2, CHR 0x9D, CHR 0x8C] @ '' Missing Azure OpenAI environment variables''))\<close>
    by simp
  from env_validation [of demo_env demo_pandasai Holdings False None fresh_session] built
  have c: "\<not> missing demo_env ''AZURE_OPENAI_API_KEY''"
    by simp
  from a b built c show ?thesis by (intro conjI)
qed


end
